theory Spec2Isabelle
  imports Main
begin

section \<open>JavaScript strings\<close>

text \<open>
  A JavaScript string is a sequence of code units. The embedding uses \<^typ>\<open>string\<close>, so it
  covers the code units 0 to 255 (Latin-1); every marker, keyword and pattern of the two
  source files is ASCII. The three character classes below are written on the bits of a
  character (least significant first) so that the kernel evaluates them in one step; the
  lemmas \<open>isSpace_chars\<close>, \<open>canonicalize_changes\<close> and \<open>isWordChar_chars\<close> list, for each
  class, exactly which of the 256 characters belong to it.
\<close>

text \<open>White space as \<open>\s\<close> and \<open>String.prototype.trim\<close> see it: TAB, LF, VT, FF, CR, SP, NBSP.\<close>

fun isSpace :: "char \<Rightarrow> bool" where
  "isSpace (Char b0 b1 b2 b3 b4 b5 b6 b7) =
     (if b7 then \<not> b0 \<and> \<not> b1 \<and> \<not> b2 \<and> \<not> b3 \<and> \<not> b4 \<and> b5 \<and> \<not> b6
      else \<not> b6 \<and> \<not> b4 \<and>
        (if b5 then \<not> b0 \<and> \<not> b1 \<and> \<not> b2 \<and> \<not> b3
         else b3 \<and> (\<not> b2 \<and> (b0 \<or> b1) \<or> b2 \<and> \<not> b1)))"

text \<open>
  \<open>Canonicalize\<close> of a regular expression with flag \<open>i\<close> and without flag \<open>u\<close>: the
  upper-case form of one code unit, kept only when it is again one code unit and does not
  turn a non-ASCII unit into an ASCII one. Against the ASCII patterns of the source this is
  upper-casing of \<open>a\<close> to \<open>z\<close>; other characters never compare equal to an ASCII pattern
  character, and are left as they are.
\<close>

fun canonicalize :: "char \<Rightarrow> char" where
  "canonicalize (Char b0 b1 b2 b3 b4 b5 b6 b7) =
     (if b5 \<and> b6 \<and> \<not> b7 \<and> (b0 \<or> b1 \<or> b2 \<or> b3 \<or> b4) \<and> \<not> (b3 \<and> b4 \<and> (b2 \<or> b0 \<and> b1))
      then Char b0 b1 b2 b3 b4 False b6 b7 else Char b0 b1 b2 b3 b4 b5 b6 b7)"

text \<open>The word characters of \<open>\b\<close>: letters, digits and the underscore.\<close>

fun isWordChar :: "char \<Rightarrow> bool" where
  "isWordChar (Char b0 b1 b2 b3 b4 b5 b6 b7) =
     (\<not> b7 \<and> (if b6 then (b0 \<or> b1 \<or> b2 \<or> b3 \<or> b4) \<and> \<not> (b3 \<and> b4 \<and> (b2 \<or> b0 \<and> b1))
                        \<or> (b0 \<and> b1 \<and> b2 \<and> b3 \<and> b4 \<and> \<not> b5)
                 else b5 \<and> b4 \<and> \<not> (b3 \<and> (b2 \<or> b1))))"

text \<open>
  \<open>toUpperCase\<close> and \<open>toLowerCase\<close> on Latin-1. Upper-casing turns \<open>0xDF\<close> (sharp s)
  into \<open>SS\<close>; \<open>0xB5\<close> and \<open>0xFF\<close> have upper-case forms outside Latin-1 and stay as they
  are here (the result is non-ASCII either way). \<open>0xF7\<close> and \<open>0xD7\<close> are not letters,
  and \<open>0xDF\<close> and \<open>0xFF\<close> are already lower case.
\<close>

fun upperUnit :: "char \<Rightarrow> string" where
  "upperUnit (Char b0 b1 b2 b3 b4 b5 b6 b7) =
     (if b7 \<and> b6 then
        (if \<not> b5 \<and> b4 \<and> b3 \<and> b2 \<and> b1 \<and> b0 then ''SS''
         else if b5 \<and> \<not> (b0 \<and> b1 \<and> b2 \<and> b4)
           then [Char b0 b1 b2 b3 b4 False b6 b7]
         else [Char b0 b1 b2 b3 b4 b5 b6 b7])
      else [canonicalize (Char b0 b1 b2 b3 b4 b5 b6 b7)])"

fun lowerUnit :: "char \<Rightarrow> char" where
  "lowerUnit (Char b0 b1 b2 b3 b4 b5 b6 b7) =
     (if \<not> b5 \<and> b6 \<and>
         (if b7 then \<not> (b0 \<and> b1 \<and> b2 \<and> b4)
          else (b0 \<or> b1 \<or> b2 \<or> b3 \<or> b4) \<and> \<not> (b3 \<and> b4 \<and> (b2 \<or> b0 \<and> b1)))
      then Char b0 b1 b2 b3 b4 True b6 b7 else Char b0 b1 b2 b3 b4 b5 b6 b7)"

definition toUpperCase :: "string \<Rightarrow> string" where
  "toUpperCase s = concat (map upperUnit s)"

definition toLowerCase :: "string \<Rightarrow> string" where
  "toLowerCase s = map lowerUnit s"

definition trim :: "string \<Rightarrow> string" where
  "trim s = rev (dropWhile isSpace (rev (dropWhile isSpace s)))"

text \<open>\<open>s.split(c)\<close> for a one-character separator: never the empty list.\<close>

fun split :: "char \<Rightarrow> string \<Rightarrow> string list" where
  "split sep [] = [[]]"
| "split sep (c # cs) =
     (if c = sep then [] # split sep cs
      else (case split sep cs of [] \<Rightarrow> [[c]] | w # ws \<Rightarrow> (c # w) # ws))"

fun join :: "string \<Rightarrow> string list \<Rightarrow> string" where
  "join sep [] = []"
| "join sep [x] = x"
| "join sep (x # y # ys) = x @ sep @ join sep (y # ys)"

text \<open>Decimal rendering of an array length inside a template literal.\<close>

fun numberToString :: "nat \<Rightarrow> string" where
  "numberToString n =
     (if n < 10 then [''0123456789'' ! n]
      else numberToString (n div 10) @ [''0123456789'' ! (n mod 10)])"

section \<open>Regular expressions\<close>

text \<open>
  The fragment of ECMAScript regular expressions that the two source files use: literal
  characters, \<open>\s\<close>, \<open>.\<close> under flag \<open>s\<close> (and \<open>[\s\S]\<close>), a bracket class, sequence,
  alternation, capture groups, greedy and lazy repetition of a one-character atom,
  \<open>^\<close> and \<open>$\<close> without flag \<open>m\<close>, \<open>\b\<close> and positive lookahead. Every expression of the
  source carries flag \<open>i\<close>, so atoms compare canonicalized characters.
\<close>

datatype atom = Lit char | Space | AnyChar | OneOf "char list"

datatype regex =
    Atom atom
  | Eps
  | Seq regex regex
  | Alt regex regex
  | Star atom
  | LazyStar atom
  | Group nat regex
  | Bol
  | Eol
  | WordB
  | Look regex

fun atom_ok :: "atom \<Rightarrow> char \<Rightarrow> bool" where
  "atom_ok (Lit p) c = (canonicalize c = canonicalize p)"
| "atom_ok Space c = isSpace c"
| "atom_ok AnyChar c = True"
| "atom_ok (OneOf ps) c = (canonicalize c \<in> set (map canonicalize ps))"

text \<open>
  A matcher state: the index reached, the character before it, the input still ahead, and
  the captures as (group, start, end) with the latest first.
\<close>

datatype mstate =
  MState (pos: nat) (prev: "char option") (rest: string) (caps: "(nat \<times> nat \<times> nat) list")

fun wordAt :: "char option \<Rightarrow> bool" where
  "wordAt None = False"
| "wordAt (Some c) = isWordChar c"

fun nextc :: "string \<Rightarrow> char option" where
  "nextc [] = None"
| "nextc (c # cs) = Some c"

text \<open>
  \<open>ms r s\<close> lists every state in which the backtracking matcher can leave \<open>r\<close> when
  started in \<open>s\<close>, in the order in which backtracking tries them: the first alternative
  before the second, a greedy repetition longest first, a lazy one shortest first.
\<close>

function (sequential) ms :: "regex \<Rightarrow> mstate \<Rightarrow> mstate list" where
  "ms (Atom a) (MState n p [] g) = []"
| "ms (Atom a) (MState n p (c # cs) g) =
     (if atom_ok a c then [MState (n + 1) (Some c) cs g] else [])"
| "ms Eps s = [s]"
| "ms (Seq a b) s = concat (map (ms b) (ms a s))"
| "ms (Alt a b) s = ms a s @ ms b s"
| "ms (Star a) (MState n p [] g) = [MState n p [] g]"
| "ms (Star a) (MState n p (c # cs) g) =
     (if atom_ok a c then ms (Star a) (MState (n + 1) (Some c) cs g) else [])
     @ [MState n p (c # cs) g]"
| "ms (LazyStar a) (MState n p [] g) = [MState n p [] g]"
| "ms (LazyStar a) (MState n p (c # cs) g) =
     MState n p (c # cs) g
     # (if atom_ok a c then ms (LazyStar a) (MState (n + 1) (Some c) cs g) else [])"
| "ms (Group i r) s =
     map (\<lambda>s'. MState (pos s') (prev s') (rest s') ((i, pos s, pos s') # caps s')) (ms r s)"
| "ms Bol s = (if pos s = 0 then [s] else [])"
| "ms Eol s = (if rest s = [] then [s] else [])"
| "ms WordB s = (if wordAt (prev s) \<noteq> wordAt (nextc (rest s)) then [s] else [])"
| "ms (Look r) s =
     (case ms r s of [] \<Rightarrow> [] | s' # _ \<Rightarrow> [MState (pos s) (prev s) (rest s) (caps s')])"
  by pat_completeness auto
termination
  by (relation "measures [\<lambda>(r, s). size r, \<lambda>(r, s). length (rest s)]") auto

text \<open>Pattern text, \<open>a|b|c\<close>, \<open>abc\<close>, \<open>a+\<close>, \<open>a+?\<close> and \<open>r?\<close>.\<close>

fun lit :: "string \<Rightarrow> regex" where
  "lit [] = Eps"
| "lit [c] = Atom (Lit c)"
| "lit (c # cs) = Seq (Atom (Lit c)) (lit cs)"

fun alts :: "regex list \<Rightarrow> regex" where
  "alts [] = Eps"
| "alts [r] = r"
| "alts (r # rs) = Alt r (alts rs)"

fun seqs :: "regex list \<Rightarrow> regex" where
  "seqs [] = Eps"
| "seqs [r] = r"
| "seqs (r # rs) = Seq r (seqs rs)"

definition Plus :: "atom \<Rightarrow> regex" where
  "Plus a = Seq (Atom a) (Star a)"

definition LazyPlus :: "atom \<Rightarrow> regex" where
  "LazyPlus a = Seq (Atom a) (LazyStar a)"

definition Opt :: "regex \<Rightarrow> regex" where
  "Opt r = Alt r Eps"

text \<open>
  The match object of \<open>RegExp.prototype.exec\<close> without flag \<open>g\<close>: the leftmost index at
  which the matcher succeeds, the matched text, and the text of each group that took part.
\<close>

record rmatch =
  index :: nat
  whole :: string
  groups :: "(nat \<times> string) list"

definition substring :: "string \<Rightarrow> nat \<Rightarrow> nat \<Rightarrow> string" where
  "substring s i j = take (j - i) (drop i s)"

fun exec_from :: "regex \<Rightarrow> string \<Rightarrow> nat \<Rightarrow> char option \<Rightarrow> string \<Rightarrow> rmatch option" where
  "exec_from r inp n p s =
     (case ms r (MState n p s []) of
        s' # _ \<Rightarrow> Some \<lparr>index = n, whole = take (pos s' - n) s,
                         groups = map (\<lambda>(i, a, b). (i, substring inp a b)) (caps s')\<rparr>
      | [] \<Rightarrow> (case s of [] \<Rightarrow> None | c # cs \<Rightarrow> exec_from r inp (n + 1) (Some c) cs))"

definition exec :: "regex \<Rightarrow> string \<Rightarrow> rmatch option" where
  "exec r s = exec_from r s 0 None s"

definition test :: "regex \<Rightarrow> string \<Rightarrow> bool" where
  "test r s = (exec r s \<noteq> None)"

text \<open>\<open>m[i]\<close>: \<open>None\<close> is \<open>undefined\<close>, a group that took no part in the match.\<close>

definition group :: "rmatch \<Rightarrow> nat \<Rightarrow> string option" where
  "group m i = map_of (groups m) i"

text \<open>\<open>s.replace(r, '')\<close> without flag \<open>g\<close>: the first match is cut out.\<close>

definition replaceEmpty :: "regex \<Rightarrow> string \<Rightarrow> string" where
  "replaceEmpty r s =
     (case exec r s of None \<Rightarrow> s
      | Some m \<Rightarrow> take (index m) s @ drop (index m + length (whole m)) s)"

section \<open>The response classifier\<close>

datatype AICode =
    SUCCESS
  | SCHEMA_MISMATCH
  | INVALID_REQUEST
  | COMPLEX_QUERY
  | NO_DATA
  | UNSUPPORTED_OPERATION
  | NOT_SQL_REQUEST

text \<open>The returned object; \<open>None\<close> is a field set to \<open>undefined\<close>.\<close>

record AICodeResponse =
  code :: AICode
  message :: string
  sql :: "string option"
  explanation :: "string option"

fun CODE_MESSAGES :: "AICode \<Rightarrow> string" where
  "CODE_MESSAGES SUCCESS = ''SQL generated successfully! Review it before running.''"
| "CODE_MESSAGES SCHEMA_MISMATCH =
     ''The requested query doesn't match your database schema. Please check your tables and columns.''"
| "CODE_MESSAGES INVALID_REQUEST =
     ''Your request couldn't be understood. Please try rephrasing your question.''"
| "CODE_MESSAGES COMPLEX_QUERY =
     ''This query is too complex or too long (exceeds 50 lines). Please break it into smaller parts or simplify your request.''"
| "CODE_MESSAGES NO_DATA = ''No data found matching your criteria.''"
| "CODE_MESSAGES UNSUPPORTED_OPERATION =
     ''This operation is not supported. Only SELECT, INSERT, and UPDATE queries are allowed.''"
| "CODE_MESSAGES NOT_SQL_REQUEST =
     ''This question is not about SQL operations. I can help you write SQL queries!''"

text \<open>The list against which an extracted code is validated, with the code each name casts to.\<close>

definition knownCodes :: "(string \<times> AICode) list" where
  "knownCodes =
     [(''SUCCESS'', SUCCESS), (''SCHEMA_MISMATCH'', SCHEMA_MISMATCH),
      (''INVALID_REQUEST'', INVALID_REQUEST), (''COMPLEX_QUERY'', COMPLEX_QUERY),
      (''NO_DATA'', NO_DATA), (''UNSUPPORTED_OPERATION'', UNSUPPORTED_OPERATION),
      (''NOT_SQL_REQUEST'', NOT_SQL_REQUEST)]"

text \<open>\<open>(SUCCESS|SCHEMA_MISMATCH|INVALID_REQUEST|COMPLEX_QUERY|NO_DATA|UNSUPPORTED_OPERATION|NOT_SQL_REQUEST)\<close>\<close>

definition codeNames :: regex where
  "codeNames = Group 1 (alts (map lit
     [''SUCCESS'', ''SCHEMA_MISMATCH'', ''INVALID_REQUEST'', ''COMPLEX_QUERY'',
      ''NO_DATA'', ''UNSUPPORTED_OPERATION'', ''NOT_SQL_REQUEST'']))"

text \<open>
  \<open>codePatterns\<close>, each with the value of \<open>pattern.source.includes('^CODE:')\<close>:
  \<open>/^CODE:\s*(...)/i\<close>, \<open>/^(...):/i\<close>, \<open>/\[(...)\]/i\<close>, \<open>/^(...)\s*-/i\<close>.
\<close>

definition codePatterns :: "(regex \<times> bool) list" where
  "codePatterns =
     [(seqs [Bol, lit ''CODE:'', Star Space, codeNames], True),
      (seqs [Bol, codeNames, lit '':''], False),
      (seqs [lit ''['', codeNames, lit '']''], False),
      (seqs [Bol, codeNames, Star Space, lit ''-''], False)]"

text \<open>\<open>/^NOT_SQL_REQUEST\s*(?:\n|$)/i\<close>\<close>

definition notSqlRequestPattern :: regex where
  "notSqlRequestPattern =
     seqs [Bol, lit ''NOT_SQL_REQUEST'', Star Space, Alt (lit ''\<newline>'') Eol]"

text \<open>\<open>/^NOT_SQL_REQUEST\s*\n\s*EXPLANATION:\s*(.+?)(?:\n\n|$)/is\<close>\<close>

definition notSqlRequestWithExplanationPattern :: regex where
  "notSqlRequestWithExplanationPattern =
     seqs [Bol, lit ''NOT_SQL_REQUEST'', Star Space, lit ''\<newline>'', Star Space,
           lit ''EXPLANATION:'', Star Space, Group 1 (LazyPlus AnyChar),
           Alt (lit ''\<newline>\<newline>'') Eol]"

text \<open>\<open>/```sql\n?([\s\S]*?)\n?```/i\<close>\<close>

definition sqlBlockPattern :: regex where
  "sqlBlockPattern =
     seqs [lit ''```sql'', Opt (lit ''\<newline>''), Group 1 (LazyStar AnyChar),
           Opt (lit ''\<newline>''), lit ''```'']"

text \<open>\<open>/EXPLANATION:\s*(.+?)(?:\n\n|$)/is\<close>\<close>

definition explanationPattern :: regex where
  "explanationPattern =
     seqs [lit ''EXPLANATION:'', Star Space, Group 1 (LazyPlus AnyChar),
           Alt (lit ''\<newline>\<newline>'') Eol]"

text \<open>\<open>/SQL_STATEMENT:\s*([\s\S]*?)(?=\n\s*EXPLANATION:|$)/i\<close>\<close>

definition sqlStatementPattern :: regex where
  "sqlStatementPattern =
     seqs [lit ''SQL_STATEMENT:'', Star Space, Group 1 (LazyStar AnyChar),
           Look (Alt (seqs [lit ''\<newline>'', Star Space, lit ''EXPLANATION:'']) Eol)]"

text \<open>
  The expressions of the line scan: \<open>/^EXPLANATION:/i\<close>, \<open>/^(CODE|SQL_STATEMENT):/i\<close>,
  \<open>/^NOT_SQL_REQUEST\s*$/i\<close>, \<open>/^(CODE|RESPONSE|EXPLANATION|SQL_STATEMENT):/i\<close> and
  \<open>/^(SELECT|INSERT|UPDATE|DELETE|CREATE|ALTER|DROP|WITH|TRUNCATE)/i\<close>.
\<close>

definition explanationLine :: regex where
  "explanationLine = seqs [Bol, lit ''EXPLANATION:'']"

definition skippedMarkerLine :: regex where
  "skippedMarkerLine =
     seqs [Bol, Group 1 (alts (map lit [''CODE'', ''SQL_STATEMENT''])), lit '':'']"

definition notSqlRequestLine :: regex where
  "notSqlRequestLine = seqs [Bol, lit ''NOT_SQL_REQUEST'', Star Space, Eol]"

definition markerLine :: regex where
  "markerLine =
     seqs [Bol, Group 1 (alts (map lit [''CODE'', ''RESPONSE'', ''EXPLANATION'', ''SQL_STATEMENT''])),
           lit '':'']"

definition sqlVerbLine :: regex where
  "sqlVerbLine =
     seqs [Bol, Group 1 (alts (map lit
       [''SELECT'', ''INSERT'', ''UPDATE'', ''DELETE'', ''CREATE'', ''ALTER'', ''DROP'', ''WITH'',
        ''TRUNCATE'']))]"

text \<open>\<open>/NOT_SQL_REQUEST\s*\n\s*EXPLANATION:\s*(.+?)(?:\n\n|$)/is\<close>\<close>

definition notSqlExplanationPattern :: regex where
  "notSqlExplanationPattern =
     seqs [lit ''NOT_SQL_REQUEST'', Star Space, lit ''\<newline>'', Star Space,
           lit ''EXPLANATION:'', Star Space, Group 1 (LazyPlus AnyChar),
           Alt (lit ''\<newline>\<newline>'') Eol]"

text \<open>
  The three replacements of the explanation fallback:
  \<open>/^(NOT_SQL_REQUEST|CODE|SQL_STATEMENT)[:\[]/i\<close>, \<open>/^NOT_SQL_REQUEST\s*\n?/i\<close>,
  \<open>/SQL_STATEMENT:\s*NOT_SQL_REQUEST\s*\n?/i\<close>; and the one of the SQL fallback:
  \<open>/^(...)[:\[]/i\<close> over the seven code names.
\<close>

definition markerPrefixPattern :: regex where
  "markerPrefixPattern =
     seqs [Bol, Group 1 (alts (map lit [''NOT_SQL_REQUEST'', ''CODE'', ''SQL_STATEMENT''])),
           Atom (OneOf '':['')]"

definition notSqlPrefixPattern :: regex where
  "notSqlPrefixPattern = seqs [Bol, lit ''NOT_SQL_REQUEST'', Star Space, Opt (lit ''\<newline>'')]"

definition sqlStatementNotSqlPattern :: regex where
  "sqlStatementNotSqlPattern =
     seqs [lit ''SQL_STATEMENT:'', Star Space, lit ''NOT_SQL_REQUEST'', Star Space,
           Opt (lit ''\<newline>'')]"

definition codePrefixPattern :: regex where
  "codePrefixPattern = seqs [Bol, codeNames, Atom (OneOf '':['')]"

text \<open>
  A method call on \<open>undefined\<close> raises \<open>TypeError\<close>; in \<open>parseAIResponse\<close> the calls that
  could do so are \<open>m[1].trim()\<close> on a match object.
\<close>

datatype js_error = TypeError

fun andThen :: "js_error + 'a \<Rightarrow> ('a \<Rightarrow> js_error + 'b) \<Rightarrow> js_error + 'b" where
  "andThen (Inl e) f = Inl e"
| "andThen (Inr x) f = f x"

definition trimGroup1 :: "rmatch \<Rightarrow> js_error + string" where
  "trimGroup1 m = (case group m 1 of None \<Rightarrow> Inl TypeError | Some g \<Rightarrow> Inr (trim g))"

text \<open>The four local variables \<open>code\<close>, \<open>message\<close>, \<open>sql\<close> and \<open>explanation\<close>.\<close>

record locals =
  l_code :: AICode
  l_message :: string
  l_sql :: string
  l_explanation :: string

text \<open>
  The extracted code of one match: \<open>match[1]?.toUpperCase() || ''\<close> for the pattern with
  \<open>^CODE:\<close>, and \<open>(match[1] || match[0].split(/[:\[]/)[0]).toUpperCase()\<close> for the others.
\<close>

definition extractedCode :: "bool \<Rightarrow> rmatch \<Rightarrow> string" where
  "extractedCode codePrefixed m =
     (if codePrefixed then (case group m 1 of None \<Rightarrow> [] | Some g \<Rightarrow> toUpperCase g)
      else toUpperCase
        (case group m 1 of
           None \<Rightarrow> takeWhile (\<lambda>c. c \<notin> set '':['') (whole m)
         | Some g \<Rightarrow> if g \<noteq> [] then g else takeWhile (\<lambda>c. c \<notin> set '':['') (whole m)))"

text \<open>The loop over \<open>codePatterns\<close>; \<open>None\<close> when no pattern gives a known code.\<close>

fun detectCode :: "(regex \<times> bool) list \<Rightarrow> string \<Rightarrow> AICode option" where
  "detectCode [] trimmedResponse = None"
| "detectCode ((pattern, codePrefixed) # patterns) trimmedResponse =
     (case exec pattern trimmedResponse of
        None \<Rightarrow> detectCode patterns trimmedResponse
      | Some m \<Rightarrow>
          (case map_of knownCodes (extractedCode codePrefixed m) of
             None \<Rightarrow> detectCode patterns trimmedResponse
           | Some c \<Rightarrow> Some c))"

definition initialLocals :: "string \<Rightarrow> locals" where
  "initialLocals trimmedResponse =
     (case detectCode codePatterns trimmedResponse of
        None \<Rightarrow> \<lparr>l_code = SUCCESS, l_message = CODE_MESSAGES SUCCESS, l_sql = [],
                  l_explanation = []\<rparr>
      | Some c \<Rightarrow> \<lparr>l_code = c, l_message = CODE_MESSAGES c, l_sql = [], l_explanation = []\<rparr>)"

definition setNotSqlRequest :: "locals \<Rightarrow> locals" where
  "setNotSqlRequest st =
     st\<lparr>l_code := NOT_SQL_REQUEST, l_message := CODE_MESSAGES NOT_SQL_REQUEST, l_sql := []\<rparr>"

text \<open>
  What is done with an extracted SQL text; the source has this block three times, once per
  extraction strategy.
\<close>

definition useExtractedSql :: "string \<Rightarrow> locals \<Rightarrow> js_error + locals" where
  "useExtractedSql extractedSql st =
     (if test notSqlRequestPattern extractedSql
         \<or> test notSqlRequestWithExplanationPattern extractedSql
      then (case exec explanationPattern extractedSql of
              None \<Rightarrow> Inr (setNotSqlRequest st)
            | Some explanationInSql \<Rightarrow>
                if l_explanation st = []
                then andThen (trimGroup1 explanationInSql)
                       (\<lambda>e. Inr ((setNotSqlRequest st)\<lparr>l_explanation := e\<rparr>))
                else Inr (setNotSqlRequest st))
      else Inr (st\<lparr>l_sql := extractedSql\<rparr>))"

text \<open>The loop over the lines, with its \<open>break\<close> and \<open>continue\<close>.\<close>

fun scanLines :: "string list \<Rightarrow> locals \<Rightarrow> bool \<Rightarrow> string list \<Rightarrow> locals \<times> string list" where
  "scanLines [] st sqlStart sqlLines = (st, sqlLines)"
| "scanLines (line # lines) st sqlStart sqlLines =
     (if test explanationLine line then (st, sqlLines)
      else if test skippedMarkerLine line then scanLines lines st sqlStart sqlLines
      else if l_code st = NOT_SQL_REQUEST then (st, sqlLines)
      else if test notSqlRequestLine line then (setNotSqlRequest st, sqlLines)
      else if sqlStart then
        (if trim line \<noteq> [] \<and> \<not> test markerLine line
         then scanLines lines st sqlStart (sqlLines @ [line])
         else scanLines lines st sqlStart sqlLines)
      else if test sqlVerbLine line then scanLines lines st True (sqlLines @ [line])
      else scanLines lines st sqlStart sqlLines)"

definition extractSql :: "string \<Rightarrow> locals \<Rightarrow> js_error + locals" where
  "extractSql trimmedResponse st =
     (if l_code st = NOT_SQL_REQUEST then Inr (st\<lparr>l_sql := []\<rparr>)
      else case exec sqlBlockPattern trimmedResponse of
        Some sqlBlockMatch \<Rightarrow>
          andThen (trimGroup1 sqlBlockMatch) (\<lambda>extractedSql. useExtractedSql extractedSql st)
      | None \<Rightarrow>
          (case exec sqlStatementPattern trimmedResponse of
             Some sqlStatementMatch \<Rightarrow>
               andThen (trimGroup1 sqlStatementMatch) (\<lambda>extractedSql.
                 if l_code st = NOT_SQL_REQUEST then Inr (st\<lparr>l_sql := []\<rparr>)
                 else if extractedSql = [] then Inr (st\<lparr>l_sql := []\<rparr>)
                 else useExtractedSql extractedSql st)
           | None \<Rightarrow>
               (case scanLines (split CHR ''\<newline>'' trimmedResponse) st False [] of
                  (st', sqlLines) \<Rightarrow>
                    if sqlLines \<noteq> [] then
                      (if l_code st' = NOT_SQL_REQUEST then Inr (st'\<lparr>l_sql := []\<rparr>)
                       else useExtractedSql (trim (join ''\<newline>'' sqlLines)) st')
                    else Inr st')))"

definition extractExplanation :: "string \<Rightarrow> locals \<Rightarrow> js_error + locals" where
  "extractExplanation trimmedResponse st =
     (case exec explanationPattern trimmedResponse of
        None \<Rightarrow> Inr st
      | Some explanationMatch \<Rightarrow>
          andThen (trimGroup1 explanationMatch) (\<lambda>e. Inr (st\<lparr>l_explanation := e\<rparr>)))"

definition notSqlRequestPass :: "string \<Rightarrow> locals \<Rightarrow> js_error + locals" where
  "notSqlRequestPass response st =
     (if l_code st = NOT_SQL_REQUEST then
        (if l_explanation st = [] \<and> trim response \<noteq> [] then
           (case exec notSqlExplanationPattern response of
              Some notSqlExplanationMatch \<Rightarrow>
                andThen (trimGroup1 notSqlExplanationMatch)
                  (\<lambda>e. Inr (st\<lparr>l_sql := [], l_explanation := e\<rparr>))
            | None \<Rightarrow>
                (let cleaned = trim (replaceEmpty sqlStatementNotSqlPattern
                                 (replaceEmpty notSqlPrefixPattern
                                   (replaceEmpty markerPrefixPattern response)))
                 in if cleaned \<noteq> [] \<and> length cleaned > 10
                    then Inr (st\<lparr>l_sql := [], l_explanation := cleaned\<rparr>)
                    else Inr (st\<lparr>l_sql := []\<rparr>)))
         else Inr (st\<lparr>l_sql := []\<rparr>))
      else Inr st)"

text \<open>The variables as they stand before the first line count.\<close>

definition extracted :: "string \<Rightarrow> js_error + locals" where
  "extracted response =
     (let trimmedResponse = trim response in
      andThen (extractSql trimmedResponse (initialLocals trimmedResponse)) (\<lambda>st1.
      andThen (extractExplanation trimmedResponse st1) (\<lambda>st2.
      notSqlRequestPass response st2)))"

text \<open>
  The line count; the source has this block twice, before and after the fallback. A line
  counts when \<open>line.trim().length > 0\<close>, and the synthesized explanation is the template
  literal with the count in decimal.
\<close>

definition lineCountCheck :: "locals \<Rightarrow> locals" where
  "lineCountCheck st =
     (if l_sql st \<noteq> [] \<and> l_code st = SUCCESS then
        (let sqlLines = filter (\<lambda>line. length (trim line) > 0) (split CHR ''\<newline>'' (l_sql st)) in
         if length sqlLines > 50 then
           st\<lparr>l_code := COMPLEX_QUERY, l_message := CODE_MESSAGES COMPLEX_QUERY, l_sql := [],
              l_explanation :=
                (if l_explanation st = [] then
                   ''The generated SQL query is '' @ numberToString (length sqlLines)
                   @ '' lines long, which exceeds the maximum limit of 50 lines. Please break your request into smaller, simpler queries.''
                 else l_explanation st)\<rparr>
         else st)
      else st)"

definition fallbackSql :: "string \<Rightarrow> locals \<Rightarrow> locals" where
  "fallbackSql response st =
     (if l_sql st = [] \<and> trim response \<noteq> [] \<and> l_code st \<noteq> NOT_SQL_REQUEST then
        (let cleaned = trim (replaceEmpty codePrefixPattern response) in
         if cleaned \<noteq> [] \<and> length cleaned > 10 then st\<lparr>l_sql := cleaned\<rparr> else st)
      else st)"

text \<open>The returned object: \<open>x || undefined\<close> turns the empty string into \<open>undefined\<close>.\<close>

definition returned :: "locals \<Rightarrow> AICodeResponse" where
  "returned st =
     \<lparr>code = l_code st,
      message = l_message st,
      sql = (if l_code st = NOT_SQL_REQUEST \<or> l_code st = COMPLEX_QUERY then Some []
             else if l_sql st \<noteq> [] then Some (l_sql st) else None),
      explanation = (if l_explanation st \<noteq> [] then Some (l_explanation st) else None)\<rparr>"

definition parseAIResponse :: "string \<Rightarrow> js_error + AICodeResponse" where
  "parseAIResponse response =
     andThen (extracted response) (\<lambda>st.
       Inr (returned (lineCountCheck (fallbackSql response (lineCountCheck st)))))"

section \<open>The SQL validator\<close>

text \<open>
  The parser is \<open>node-sql-parser\<close>, a library outside the repository; \<open>validateSql\<close> takes
  its \<open>astify\<close> as a parameter. A parse either throws (\<open>Inl\<close> the message of the error) or
  returns \<open>AST | AST[]\<close>; the validator also accepts arrays nested one level.

  The validator walks the syntax tree as untyped objects, so the parts it walks are
  JavaScript values. Numbers are left out: no table position of the tree holds one.
  The parameter \<open>sql\<close> of the source is \<open>sqlText\<close> here.
\<close>

datatype jsval =
    JUndefined
  | JNull
  | JBool bool
  | JStr string
  | JArr "jsval list"
  | JObj "(string \<times> jsval) list"

fun truthy :: "jsval \<Rightarrow> bool" where
  "truthy JUndefined = False"
| "truthy JNull = False"
| "truthy (JBool b) = b"
| "truthy (JStr s) = (s \<noteq> [])"
| "truthy (JArr vs) = True"
| "truthy (JObj kvs) = True"

text \<open>\<open>typeof v === 'object'\<close>, which holds of \<open>null\<close> too.\<close>

fun typeofObject :: "jsval \<Rightarrow> bool" where
  "typeofObject JNull = True"
| "typeofObject (JArr vs) = True"
| "typeofObject (JObj kvs) = True"
| "typeofObject v = False"

text \<open>
  \<open>k in v\<close> and \<open>v.k\<close> for the property names \<open>table\<close> and \<open>expr\<close>, on a value that is
  an object or an array (the source guards every use): an array has neither property.
\<close>

fun hasProp :: "string \<Rightarrow> jsval \<Rightarrow> bool" where
  "hasProp k (JObj kvs) = (map_of kvs k \<noteq> None)"
| "hasProp k v = False"

fun getProp :: "jsval \<Rightarrow> string \<Rightarrow> jsval" where
  "getProp (JObj kvs) k = (case map_of kvs k of None \<Rightarrow> JUndefined | Some v \<Rightarrow> v)"
| "getProp v k = JUndefined"

text \<open>\<open>String(v)\<close>\<close>

fun jsString :: "jsval \<Rightarrow> string" where
  "jsString JUndefined = ''undefined''"
| "jsString JNull = ''null''"
| "jsString (JBool b) = (if b then ''true'' else ''false'')"
| "jsString (JStr s) = s"
| "jsString (JArr vs) =
     join '','' (map (\<lambda>v. if v = JUndefined \<or> v = JNull then [] else jsString v) vs)"
| "jsString (JObj kvs) = ''[object Object]''"

text \<open>
  A statement node: its \<open>type\<close> (a string in every variant of \<open>AST\<close>; \<open>None\<close> is
  \<open>undefined\<close>) and its \<open>from\<close> and \<open>table\<close> properties (\<open>JUndefined\<close> when absent).
\<close>

record ast_node =
  node_type :: "string option"
  node_from :: jsval
  node_table :: jsval

datatype ast_item = Node ast_node | Nested "ast_node list"

datatype ast = Single ast_node | Multiple "ast_item list"

datatype ValidationResult = OkTrue ast | OkFalse string

definition ALLOWED_TYPES :: "string list" where
  "ALLOWED_TYPES =
     [''select'', ''insert'', ''update'', ''delete'', ''create'', ''drop'', ''alter'',
      ''truncate'', ''with'']"

text \<open>
  \<open>/\bcopy\s+from\b/i\<close>, \<open>/\bcopy\s+to\b/i\<close>, \<open>/\\copy/i\<close>, \<open>/\bcreate\s+extension\b/i\<close>,
  \<open>/\bgrant\s+/i\<close>, \<open>/\brevoke\s+/i\<close>, \<open>/\bcreate\s+user\b/i\<close>, \<open>/\bcreate\s+role\b/i\<close>,
  \<open>/\bdrop\s+user\b/i\<close>, \<open>/\bdrop\s+role\b/i\<close>, each with its name.
\<close>

definition BLOCKED_PATTERNS :: "(regex \<times> string) list" where
  "BLOCKED_PATTERNS =
     [(seqs [WordB, lit ''copy'', Plus Space, lit ''from'', WordB], ''COPY FROM''),
      (seqs [WordB, lit ''copy'', Plus Space, lit ''to'', WordB], ''COPY TO''),
      (lit (CHR 0x5C # ''copy''), CHR 0x5C # ''COPY''),
      (seqs [WordB, lit ''create'', Plus Space, lit ''extension'', WordB], ''CREATE EXTENSION''),
      (seqs [WordB, lit ''grant'', Plus Space], ''GRANT''),
      (seqs [WordB, lit ''revoke'', Plus Space], ''REVOKE''),
      (seqs [WordB, lit ''create'', Plus Space, lit ''user'', WordB], ''CREATE USER''),
      (seqs [WordB, lit ''create'', Plus Space, lit ''role'', WordB], ''CREATE ROLE''),
      (seqs [WordB, lit ''drop'', Plus Space, lit ''user'', WordB], ''DROP USER''),
      (seqs [WordB, lit ''drop'', Plus Space, lit ''role'', WordB], ''DROP ROLE'')]"

text \<open>\<open>parseSqlToAst\<close>: the parser's error is thrown again under a prefixed message.\<close>

definition parseSqlToAst :: "(string \<Rightarrow> string + ast) \<Rightarrow> string \<Rightarrow> string + ast" where
  "parseSqlToAst astify sqlText =
     (case astify sqlText of
        Inl m \<Rightarrow> Inl (''SQL parse error: '' @ m)
      | Inr a \<Rightarrow> Inr a)"

text \<open>
  The name in \<open>fromItem.table\<close>: the string itself, or \<open>String\<close> of the \<open>table\<close> property
  of an object; \<open>None\<close> is \<open>null\<close>.
\<close>

fun tableNameOf :: "jsval \<Rightarrow> string option" where
  "tableNameOf (JStr t) = Some t"
| "tableNameOf v =
     (if typeofObject v \<and> v \<noteq> JNull \<and> hasProp ''table'' v
      then Some (jsString (getProp v ''table'')) else None)"

text \<open>The names one item of \<open>from\<close> gives.\<close>

definition fromItemTables :: "jsval \<Rightarrow> string list" where
  "fromItemTables fromItem =
     (if truthy fromItem \<and> typeofObject fromItem then
        (if hasProp ''table'' fromItem \<and> truthy (getProp fromItem ''table'') then
           (case tableNameOf (getProp fromItem ''table'') of
              None \<Rightarrow> []
            | Some tableName \<Rightarrow> if tableName \<noteq> [] then [tableName] else [])
         else [])
        @ (if hasProp ''expr'' fromItem \<and> truthy (getProp fromItem ''expr'')
              \<and> typeofObject (getProp fromItem ''expr'')
           then (if hasProp ''table'' (getProp fromItem ''expr'')
                    \<and> truthy (getProp (getProp fromItem ''expr'') ''table'')
                 then [jsString (getProp (getProp fromItem ''expr'') ''table'')] else [])
           else [])
      else [])"

text \<open>The names one item of \<open>table\<close> gives.\<close>

definition tableItemTables :: "jsval \<Rightarrow> string list" where
  "tableItemTables tableItem =
     (if truthy tableItem \<and> typeofObject tableItem then
        (if hasProp ''table'' tableItem \<and> truthy (getProp tableItem ''table'')
         then [jsString (getProp tableItem ''table'')] else [])
      else [])"

text \<open>\<open>Array.isArray(v) ? v : [v]\<close>\<close>

fun asArray :: "jsval \<Rightarrow> jsval list" where
  "asArray (JArr vs) = vs"
| "asArray v = [v]"

definition extractTableNames :: "ast_node \<Rightarrow> string list" where
  "extractTableNames node =
     (if truthy (node_from node)
      then concat (map fromItemTables (asArray (node_from node))) else [])
     @ (if truthy (node_table node)
        then concat (map tableItemTables (asArray (node_table node))) else [])"

text \<open>The flattening of the parse result into \<open>nodes\<close>.\<close>

fun itemNodes :: "ast_item \<Rightarrow> ast_node list" where
  "itemNodes (Node n) = [n]"
| "itemNodes (Nested ns) = ns"

fun astNodes :: "ast \<Rightarrow> ast_node list" where
  "astNodes (Single n) = [n]"
| "astNodes (Multiple items) = concat (map itemNodes items)"

text \<open>\<open>(node.type || '').toLowerCase()\<close>\<close>

definition statementKind :: "ast_node \<Rightarrow> string" where
  "statementKind node = toLowerCase (case node_type node of None \<Rightarrow> [] | Some t \<Rightarrow> t)"

definition typeError :: "string \<Rightarrow> string" where
  "typeError kind =
     ''Statement type '' @ [CHR 0x27] @ kind @ [CHR 0x27]
     @ '' is not supported. Supported types: ''
     @ toUpperCase (join '', '' ALLOWED_TYPES) @ ''.''"

definition blockedError :: "string \<Rightarrow> string" where
  "blockedError name =
     ''Operation '' @ [CHR 0x27] @ name @ [CHR 0x27]
     @ '' is not allowed in PGlite (browser environment).''"

definition tableError :: "string \<Rightarrow> string list \<Rightarrow> string" where
  "tableError table allowedTables =
     ''Table '' @ [CHR 0x27] @ table @ [CHR 0x27]
     @ '' is not allowed. Allowed tables: '' @ join '', '' allowedTables"

text \<open>
  The body of the loop over \<open>nodes\<close> for one node: \<open>Some\<close> is the error it returns with,
  \<open>None\<close> lets the loop go on. \<open>allowedTables\<close> is \<open>None\<close> when the caller gives none.
\<close>

definition checkNode :: "string \<Rightarrow> string list option \<Rightarrow> ast_node \<Rightarrow> string option" where
  "checkNode sqlText allowedTables node =
     (if statementKind node \<notin> set ALLOWED_TYPES then Some (typeError (statementKind node))
      else case find (\<lambda>(pattern, name). test pattern sqlText) BLOCKED_PATTERNS of
        Some (pattern, name) \<Rightarrow> Some (blockedError name)
      | None \<Rightarrow>
          (case allowedTables of
             None \<Rightarrow> None
           | Some tables \<Rightarrow>
               if length tables > 0 then
                 (case find (\<lambda>table. table \<notin> set tables) (extractTableNames node) of
                    Some table \<Rightarrow> Some (tableError table tables)
                  | None \<Rightarrow> None)
               else None))"

fun checkNodes :: "string \<Rightarrow> string list option \<Rightarrow> ast_node list \<Rightarrow> string option" where
  "checkNodes sqlText allowedTables [] = None"
| "checkNodes sqlText allowedTables (node # nodes) =
     (case checkNode sqlText allowedTables node of
        Some e \<Rightarrow> Some e
      | None \<Rightarrow> checkNodes sqlText allowedTables nodes)"

definition validateSql ::
  "(string \<Rightarrow> string + ast) \<Rightarrow> string \<Rightarrow> string list option \<Rightarrow> ValidationResult" where
  "validateSql astify sqlText allowedTables =
     (if sqlText = [] then OkFalse ''Empty SQL''
      else if filter (\<lambda>s. s \<noteq> []) (map trim (split CHR '';'' sqlText)) = [] then OkFalse ''Empty SQL''
      else case parseSqlToAst astify sqlText of
        Inl m \<Rightarrow> OkFalse m
      | Inr a \<Rightarrow>
          (case checkNodes sqlText allowedTables (astNodes a) of
             Some e \<Rightarrow> OkFalse e
           | None \<Rightarrow> OkTrue a))"

section \<open>Groups that every match sets\<close>

text \<open>
  \<open>alwaysCaptures i r\<close>: on every path through \<open>r\<close> the matcher passes a group \<open>i\<close>, so a
  match of \<open>r\<close> has \<open>m[i]\<close> defined.
\<close>

fun alwaysCaptures :: "nat \<Rightarrow> regex \<Rightarrow> bool" where
  "alwaysCaptures i (Group j r) = (i = j \<or> alwaysCaptures i r)"
| "alwaysCaptures i (Seq a b) = (alwaysCaptures i a \<or> alwaysCaptures i b)"
| "alwaysCaptures i (Alt a b) = (alwaysCaptures i a \<and> alwaysCaptures i b)"
| "alwaysCaptures i (Look r) = alwaysCaptures i r"
| "alwaysCaptures i r = False"

definition captured :: "nat \<Rightarrow> mstate \<Rightarrow> bool" where
  "captured i s = (i \<in> fst ` set (caps s))"

section \<open>Statements and parsers of the examples\<close>

text \<open>
  The shapes \<open>node-sql-parser\<close> builds: a table reference \<open>{db: null, table: t, as: a}\<close>,
  a join item with \<open>join\<close> and \<open>on\<close> beside these, a column reference.
\<close>

definition tableRef :: "string \<Rightarrow> jsval \<Rightarrow> jsval" where
  "tableRef t a = JObj [(''db'', JNull), (''table'', JStr t), (''as'', a)]"

definition columnRef :: "string \<Rightarrow> string \<Rightarrow> jsval" where
  "columnRef t c =
     JObj [(''type'', JStr ''column_ref''), (''table'', JStr t), (''column'', JStr c)]"

text \<open>\<open>SELECT * FROM students\<close>\<close>

definition selectStudents :: ast_node where
  "selectStudents =
     \<lparr>node_type = Some ''select'', node_from = JArr [tableRef ''students'' JNull],
      node_table = JUndefined\<rparr>"

text \<open>\<open>SELECT * FROM students s JOIN unauthorized o ON s.id=o.student_id\<close>\<close>

definition selectJoin :: ast_node where
  "selectJoin =
     \<lparr>node_type = Some ''select'',
      node_from = JArr
        [tableRef ''students'' (JStr ''s''),
         JObj [(''db'', JNull), (''table'', JStr ''unauthorized''), (''as'', JStr ''o''),
               (''join'', JStr ''INNER JOIN''),
               (''on'', JObj [(''type'', JStr ''binary_expr''), (''operator'', JStr ''=''),
                              (''left'', columnRef ''s'' ''id''),
                              (''right'', columnRef ''o'' ''student_id'')])]],
      node_table = JUndefined\<rparr>"

text \<open>
  A select that reads from \<open>a\<close> alone, such as \<open>SELECT 'drop role' AS note FROM a\<close>; the
  validator does not read the column list.
\<close>

definition selectA :: ast_node where
  "selectA =
     \<lparr>node_type = Some ''select'', node_from = JArr [tableRef ''a'' JNull],
      node_table = JUndefined\<rparr>"

text \<open>A parser given by a finite table of answers; it throws on any other text.\<close>

definition astifyTable :: "(string \<times> ast) list \<Rightarrow> string \<Rightarrow> string + ast" where
  "astifyTable answers sqlText =
     (case map_of answers sqlText of None \<Rightarrow> Inl ''Syntax error'' | Some a \<Rightarrow> Inr a)"

text \<open>
  The parser of the examples: three texts with the statements they stand for. On
  \<open>SELECT * FROM a; DROP ROLE x;\<close>, as on every other text, it throws.
\<close>

definition exampleParser :: "string \<Rightarrow> string + ast" where
  "exampleParser =
     astifyTable
       [(''SELECT * FROM students'', Single selectStudents),
        (''SELECT * FROM students s JOIN unauthorized o ON s.id=o.student_id'', Single selectJoin),
        (''SELECT 'drop role' AS note FROM a'', Single selectA)]"




definition fiftyBody :: string where
  "fiftyBody = ''SELECT\<newline>'' @ concat (replicate 48 ''1,\<newline>\<newline>'') @ ''  \<newline>1''"

definition fiftyResponse :: string where
  "fiftyResponse = ''CODE:SUCCESS\<newline>```sql\<newline>'' @ fiftyBody @ ''\<newline>```''"

section \<open>The character classes, character by character\<close>

declare exec_from.simps [simp del]
declare numberToString.simps [simp del]

lemma isSpace_chars:
  "map of_char (filter isSpace Enum.enum) = [9, 10, 11, 12, 13, 32, 160 :: nat]"
  by code_simp

lemma canonicalize_changes:
  "filter (\<lambda>c. canonicalize c \<noteq> c) Enum.enum = ''abcdefghijklmnopqrstuvwxyz''"
  by code_simp

lemma canonicalize_letters:
  "map canonicalize ''abcdefghijklmnopqrstuvwxyz'' = ''ABCDEFGHIJKLMNOPQRSTUVWXYZ''"
  by simp

lemma isWordChar_chars:
  "filter isWordChar Enum.enum =
     ''0123456789ABCDEFGHIJKLMNOPQRSTUVWXYZ_abcdefghijklmnopqrstuvwxyz''"
  by code_simp

lemma lowerUnit_chars:
  "map (\<lambda>c. (of_char c, of_char (lowerUnit c))) (filter (\<lambda>c. lowerUnit c \<noteq> c) Enum.enum)
     = map (\<lambda>n. (n, n + 32)) ([65..<91] @ [192..<215] @ [216..<223] :: nat list)"
  by code_simp

lemma upperUnit_chars:
  "map (\<lambda>c. (of_char c, map of_char (upperUnit c)))
       (filter (\<lambda>c. upperUnit c \<noteq> [c]) Enum.enum)
     = map (\<lambda>n. (n, [n - 32])) [97..<123] @ [(223, [83, 83])]
       @ map (\<lambda>n. (n, [n - 32])) ([224..<247] @ [248..<255] :: nat list)"
  by code_simp

lemma toUpperCase_ascii:
  "toUpperCase ''select, with_x-9'' = ''SELECT, WITH_X-9''"
  by (simp add: toUpperCase_def)

lemma toLowerCase_ascii:
  "toLowerCase ''Select, WITH_x-9'' = ''select, with_x-9''"
  by (simp add: toLowerCase_def)

section \<open>A match defines the groups on all its paths\<close>

lemma captured_MState [simp]:
  "captured i (MState n p cs g) = (i \<in> fst ` set g)"
  by (simp add: captured_def)

lemma ms_keeps_captures:
  "s' \<in> set (ms r s) \<Longrightarrow> captured i s \<Longrightarrow> captured i s'"
proof (induction r s arbitrary: s' rule: ms.induct)
  case (4 a b s)
  from "4.prems"(1) obtain x where x: "x \<in> set (ms a s)" and s': "s' \<in> set (ms b x)"
    by auto
  from "4.IH"(1)[OF x "4.prems"(2)] have "captured i x" .
  from "4.IH"(2)[OF x s' this] show ?case .
next
  case (10 j r s)
  from "10.prems"(1) obtain x where x: "x \<in> set (ms r s)"
    and s': "s' = MState (pos x) (prev x) (rest x) ((j, pos s, pos x) # caps x)"
    by auto
  from "10.IH"[OF x "10.prems"(2)] have "captured i x" .
  with s' show ?case by (simp add: captured_def)
next
  case (14 r s)
  show ?case
  proof (cases "ms r s")
    case Nil
    with "14.prems"(1) show ?thesis by simp
  next
    case (Cons x xs)
    with "14.prems"(1) have s': "s' = MState (pos s) (prev s) (rest s) (caps x)" by simp
    from Cons have "x \<in> set (ms r s)" by simp
    from "14.IH"[OF this "14.prems"(2)] have "captured i x" .
    with s' show ?thesis by (simp add: captured_def)
  qed
qed (force split: if_splits)+

lemma ms_sets_capture:
  "s' \<in> set (ms r s) \<Longrightarrow> alwaysCaptures i r \<Longrightarrow> captured i s'"
proof (induction r s arbitrary: s' rule: ms.induct)
  case (4 a b s)
  from "4.prems"(1) obtain x where x: "x \<in> set (ms a s)" and s': "s' \<in> set (ms b x)"
    by auto
  from "4.prems"(2) consider "alwaysCaptures i a" | "alwaysCaptures i b" by auto
  then show ?case
  proof cases
    case 1
    from "4.IH"(1)[OF x 1] have "captured i x" .
    with s' show ?thesis by (rule ms_keeps_captures)
  next
    case 2
    from "4.IH"(2)[OF x s' 2] show ?thesis .
  qed
next
  case (5 a b s)
  then show ?case by auto
next
  case (10 j r s)
  from "10.prems"(1) obtain x where x: "x \<in> set (ms r s)"
    and s': "s' = MState (pos x) (prev x) (rest x) ((j, pos s, pos x) # caps x)"
    by auto
  show ?case
  proof (cases "i = j")
    case True
    with s' show ?thesis by simp
  next
    case False
    with "10.prems"(2) have "alwaysCaptures i r" by simp
    from "10.IH"[OF x this] s' show ?thesis by (simp add: captured_def)
  qed
next
  case (14 r s)
  show ?case
  proof (cases "ms r s")
    case Nil
    with "14.prems"(1) show ?thesis by simp
  next
    case (Cons x xs)
    with "14.prems"(1) have s': "s' = MState (pos s) (prev s) (rest s) (caps x)" by simp
    from Cons have "x \<in> set (ms r s)" by simp
    from "14.IH"[OF this] "14.prems"(2) have "captured i x" by simp
    with s' show ?thesis by (simp add: captured_def)
  qed
qed simp_all

lemma group_keys:
  "fst ` set (map (\<lambda>(i, a, b). (i, f a b)) g) = fst ` set g"
  by (induction g) auto

lemma captured_group:
  assumes "captured i x"
  shows "map_of (map (\<lambda>(i, a, b). (i, substring inp a b)) (caps x)) i \<noteq> None"
  using assms unfolding captured_def map_of_eq_None_iff group_keys by simp

lemma exec_from_group:
  "exec_from r inp n p s = Some m \<Longrightarrow> alwaysCaptures i r \<Longrightarrow> group m i \<noteq> None"
proof (induction s arbitrary: n p)
  case Nil
  show ?case
  proof (cases "ms r (MState n p [] [])")
    case Nil
    with Nil.prems(1) show ?thesis by (simp add: exec_from.simps)
  next
    case (Cons x xs)
    then have "x \<in> set (ms r (MState n p [] []))" by simp
    from ms_sets_capture[OF this Nil.prems(2)] have "captured i x" .
    from captured_group[OF this] Nil.prems(1) Cons show ?thesis
      by (auto simp: group_def exec_from.simps)
  qed
next
  case (Cons c cs)
  show ?case
  proof (cases "ms r (MState n p (c # cs) [])")
    case Nil
    with Cons.prems(1) have "exec_from r inp (n + 1) (Some c) cs = Some m"
      by (simp add: exec_from.simps)
    from Cons.IH[OF this Cons.prems(2)] show ?thesis .
  next
    case (Cons x xs)
    then have "x \<in> set (ms r (MState n p (c # cs) []))" by simp
    from ms_sets_capture[OF this Cons.prems(2)] have "captured i x" .
    from captured_group[OF this] \<open>exec_from r inp n p (c # cs) = Some m\<close> Cons show ?thesis
      by (auto simp: group_def exec_from.simps)
  qed
qed

lemma trimGroup1_total:
  assumes "exec r s = Some m" and "alwaysCaptures 1 r"
  shows "\<exists>g. trimGroup1 m = Inr g"
proof -
  from assms have "group m 1 \<noteq> None"
    unfolding exec_def by (rule exec_from_group)
  then show ?thesis by (auto simp: trimGroup1_def)
qed

lemma captures1:
  "alwaysCaptures 1 explanationPattern"
  "alwaysCaptures 1 sqlBlockPattern"
  "alwaysCaptures 1 sqlStatementPattern"
  "alwaysCaptures 1 notSqlExplanationPattern"
  by (simp_all add: explanationPattern_def sqlBlockPattern_def sqlStatementPattern_def
      notSqlExplanationPattern_def)


lemma useExtractedSql_total: "\<exists>st'. useExtractedSql extractedSql st = Inr st'"
proof (cases "exec explanationPattern extractedSql")
  case None
  then show ?thesis by (simp add: useExtractedSql_def)
next
  case (Some m)
  from trimGroup1_total[OF Some captures1(1)] obtain g where "trimGroup1 m = Inr g" ..
  with Some show ?thesis by (simp add: useExtractedSql_def)
qed

lemma extractSql_total: "\<exists>st'. extractSql trimmedResponse st = Inr st'"
proof (cases "exec sqlBlockPattern trimmedResponse")
  case (Some m)
  from trimGroup1_total[OF Some captures1(2)] obtain g where "trimGroup1 m = Inr g" ..
  with Some useExtractedSql_total[of g st] show ?thesis by (auto simp: extractSql_def)
next
  case None
  note noBlock = this
  show ?thesis
  proof (cases "exec sqlStatementPattern trimmedResponse")
    case (Some m)
    from trimGroup1_total[OF Some captures1(3)] obtain g where "trimGroup1 m = Inr g" ..
    with Some noBlock useExtractedSql_total[of g st] show ?thesis
      by (auto simp: extractSql_def)
  next
    case None
    obtain st' sqlLines
      where scan: "scanLines (split CHR ''\<newline>'' trimmedResponse) st False [] = (st', sqlLines)"
      by (cases "scanLines (split CHR ''\<newline>'' trimmedResponse) st False []") auto
    from useExtractedSql_total[of "trim (join ''\<newline>'' sqlLines)" st']
    show ?thesis using None noBlock scan by (auto simp: extractSql_def)
  qed
qed

lemma extractSql_marked:
  "l_code st = NOT_SQL_REQUEST \<Longrightarrow> extractSql trimmedResponse st = Inr (st\<lparr>l_sql := []\<rparr>)"
  by (simp add: extractSql_def)

lemma extractExplanation_total:
  "\<exists>st'. extractExplanation trimmedResponse st = Inr st' \<and> l_code st' = l_code st"
proof (cases "exec explanationPattern trimmedResponse")
  case None
  then show ?thesis by (simp add: extractExplanation_def)
next
  case (Some m)
  from trimGroup1_total[OF Some captures1(1)] obtain g where "trimGroup1 m = Inr g" ..
  with Some show ?thesis by (simp add: extractExplanation_def)
qed

lemma notSqlRequestPass_total:
  "\<exists>st'. notSqlRequestPass response st = Inr st' \<and> l_code st' = l_code st"
proof (cases "exec notSqlExplanationPattern response")
  case None
  then show ?thesis by (simp add: notSqlRequestPass_def Let_def)
next
  case (Some m)
  from trimGroup1_total[OF Some captures1(4)] obtain g where "trimGroup1 m = Inr g" ..
  with Some show ?thesis by (simp add: notSqlRequestPass_def)
qed

lemma extracted_total: "\<exists>st. extracted response = Inr st"
proof -
  obtain st1 where 1: "extractSql (trim response) (initialLocals (trim response)) = Inr st1"
    using extractSql_total by blast
  obtain st2 where 2: "extractExplanation (trim response) st1 = Inr st2"
    using extractExplanation_total by blast
  obtain st3 where 3: "notSqlRequestPass response st2 = Inr st3"
    using notSqlRequestPass_total by blast
  from 1 2 3 show ?thesis by (simp add: extracted_def)
qed

lemma extracted_marked:
  assumes "detectCode codePatterns (trim response) = Some NOT_SQL_REQUEST"
  shows "\<exists>st. extracted response = Inr st \<and> l_code st = NOT_SQL_REQUEST"
proof -
  let ?st0 = "initialLocals (trim response)"
  from assms have c0: "l_code ?st0 = NOT_SQL_REQUEST" by (simp add: initialLocals_def)
  then have 1: "extractSql (trim response) ?st0 = Inr (?st0\<lparr>l_sql := []\<rparr>)"
    by (rule extractSql_marked)
  obtain st2 where 2: "extractExplanation (trim response) (?st0\<lparr>l_sql := []\<rparr>) = Inr st2"
    and c2: "l_code st2 = l_code (?st0\<lparr>l_sql := []\<rparr>)"
    using extractExplanation_total by blast
  obtain st3 where 3: "notSqlRequestPass response st2 = Inr st3" and c3: "l_code st3 = l_code st2"
    using notSqlRequestPass_total by blast
  from 1 2 3 have "extracted response = Inr st3" by (simp add: extracted_def)
  moreover from c0 c2 c3 have "l_code st3 = NOT_SQL_REQUEST" by simp
  ultimately show ?thesis by blast
qed

lemma returned_not_sql:
  assumes "l_code st = NOT_SQL_REQUEST"
  shows "code (returned (lineCountCheck (fallbackSql response (lineCountCheck st)))) = NOT_SQL_REQUEST"
    and "sql (returned (lineCountCheck (fallbackSql response (lineCountCheck st)))) = Some []"
  using assms by (simp_all add: returned_def lineCountCheck_def fallbackSql_def)

section \<open>Properties of the classifier\<close>

text \<open>Two well-formed responses, one with markers and one with a fenced block.\<close>

lemma well_formed_response:
  "parseAIResponse ''CODE:SUCCESS\<newline>\<newline>SELECT 1;\<newline>\<newline>EXPLANATION: test''
     = Inr \<lparr>code = SUCCESS, message = CODE_MESSAGES SUCCESS, sql = Some ''SELECT 1;'',
            explanation = Some ''test''\<rparr>"
  by code_simp

lemma fenced_response:
  "parseAIResponse ''Here you go:\<newline>```sql\<newline>SELECT name\<newline>FROM students;\<newline>```\<newline>EXPLANATION: Lists the names.''
     = Inr \<lparr>code = SUCCESS, message = CODE_MESSAGES SUCCESS,
            sql = Some ''SELECT name\<newline>FROM students;'',
            explanation = Some ''Lists the names.''\<rparr>"
  by code_simp

text \<open>
  C9. \<open>parseAIResponse\<close> is total: for every input string it returns an outcome and raises
  no exception (no \<open>m[1].trim()\<close> meets an undefined group), and on the empty string the
  outcome has code \<open>SUCCESS\<close> and no SQL (\<open>sql\<close> is \<open>undefined\<close>).
\<close>

theorem parseAIResponse_total:
  "(\<exists>r. parseAIResponse response = Inr r)
   \<and> parseAIResponse [] =
       Inr \<lparr>code = SUCCESS, message = CODE_MESSAGES SUCCESS, sql = None, explanation = None\<rparr>"
proof
  from extracted_total obtain st where "extracted response = Inr st" ..
  then show "\<exists>r. parseAIResponse response = Inr r" by (simp add: parseAIResponse_def)
next
  show "parseAIResponse [] =
       Inr \<lparr>code = SUCCESS, message = CODE_MESSAGES SUCCESS, sql = None, explanation = None\<rparr>"
    by code_simp
qed

text \<open>
  C5. Whenever the code resolves to \<open>NOT_SQL_REQUEST\<close>, the returned \<open>sql\<close> is the empty
  string: for every returned outcome with that code; for every input whose code marker is
  \<open>NOT_SQL_REQUEST\<close>; and for every input on which the extraction stages end with that
  code, which includes the override found inside the would-be SQL field.
\<close>

theorem not_sql_request_has_empty_sql:
  "(parseAIResponse response = Inr r \<longrightarrow> code r = NOT_SQL_REQUEST \<longrightarrow> sql r = Some [])
   \<and> (detectCode codePatterns (trim response) = Some NOT_SQL_REQUEST \<longrightarrow>
        (\<exists>r'. parseAIResponse response = Inr r' \<and> code r' = NOT_SQL_REQUEST \<and> sql r' = Some []))
   \<and> (extracted response = Inr st \<longrightarrow> l_code st = NOT_SQL_REQUEST \<longrightarrow>
        (\<exists>r'. parseAIResponse response = Inr r' \<and> code r' = NOT_SQL_REQUEST \<and> sql r' = Some []))"
proof (intro conjI impI)
  assume "parseAIResponse response = Inr r" and "code r = NOT_SQL_REQUEST"
  then show "sql r = Some []"
    by (cases "extracted response") (auto simp: parseAIResponse_def returned_def)
next
  assume "detectCode codePatterns (trim response) = Some NOT_SQL_REQUEST"
  from extracted_marked[OF this] obtain st'
    where "extracted response = Inr st'" and "l_code st' = NOT_SQL_REQUEST" by blast
  then show "\<exists>r'. parseAIResponse response = Inr r' \<and> code r' = NOT_SQL_REQUEST \<and> sql r' = Some []"
    by (simp add: parseAIResponse_def returned_not_sql)
next
  assume "extracted response = Inr st" and "l_code st = NOT_SQL_REQUEST"
  then show "\<exists>r'. parseAIResponse response = Inr r' \<and> code r' = NOT_SQL_REQUEST \<and> sql r' = Some []"
    by (simp add: parseAIResponse_def returned_not_sql)
qed

text \<open>
  The two inputs of the witness: one whose code marker is \<open>NOT_SQL_REQUEST\<close> while an SQL
  statement follows it, and one without a code marker whose \<open>SQL_STATEMENT:\<close> field holds
  \<open>NOT_SQL_REQUEST\<close>.
\<close>

lemma parse_marked_not_sql:
  "parseAIResponse
     ''CODE:NOT_SQL_REQUEST\<newline>\<newline>SELECT * FROM users;\<newline>\<newline>EXPLANATION: That is a question about the weather.''
   = Inr \<lparr>code = NOT_SQL_REQUEST, message = CODE_MESSAGES NOT_SQL_REQUEST, sql = Some [],
          explanation = Some ''That is a question about the weather.''\<rparr>"
  by code_simp

lemma detect_marked_not_sql:
  "detectCode codePatterns
     (trim ''CODE:NOT_SQL_REQUEST\<newline>\<newline>SELECT * FROM users;\<newline>\<newline>EXPLANATION: That is a question about the weather.'')
   = Some NOT_SQL_REQUEST"
  by code_simp

lemma extracted_override_not_sql:
  "extracted ''SQL_STATEMENT: NOT_SQL_REQUEST\<newline>EXPLANATION: Ask me about your tables.''
   = Inr \<lparr>l_code = NOT_SQL_REQUEST, l_message = CODE_MESSAGES NOT_SQL_REQUEST, l_sql = [],
          l_explanation = ''Ask me about your tables.''\<rparr>"
  by code_simp

lemma detect_override_not_sql:
  "detectCode codePatterns
     (trim ''SQL_STATEMENT: NOT_SQL_REQUEST\<newline>EXPLANATION: Ask me about your tables.'') = None"
  by code_simp

theorem not_sql_request_has_empty_sql_witness:
  "detectCode codePatterns
     (trim ''CODE:NOT_SQL_REQUEST\<newline>\<newline>SELECT * FROM users;\<newline>\<newline>EXPLANATION: That is a question about the weather.'')
     = Some NOT_SQL_REQUEST
   \<and> parseAIResponse
     ''CODE:NOT_SQL_REQUEST\<newline>\<newline>SELECT * FROM users;\<newline>\<newline>EXPLANATION: That is a question about the weather.''
     = Inr \<lparr>code = NOT_SQL_REQUEST, message = CODE_MESSAGES NOT_SQL_REQUEST, sql = Some [],
            explanation = Some ''That is a question about the weather.''\<rparr>
   \<and> detectCode codePatterns
     (trim ''SQL_STATEMENT: NOT_SQL_REQUEST\<newline>EXPLANATION: Ask me about your tables.'') = None
   \<and> extracted ''SQL_STATEMENT: NOT_SQL_REQUEST\<newline>EXPLANATION: Ask me about your tables.''
     = Inr \<lparr>l_code = NOT_SQL_REQUEST, l_message = CODE_MESSAGES NOT_SQL_REQUEST, l_sql = [],
            l_explanation = ''Ask me about your tables.''\<rparr>
   \<and> parseAIResponse ''SQL_STATEMENT: NOT_SQL_REQUEST\<newline>EXPLANATION: Ask me about your tables.''
     = Inr \<lparr>code = NOT_SQL_REQUEST, message = CODE_MESSAGES NOT_SQL_REQUEST, sql = Some [],
            explanation = Some ''Ask me about your tables.''\<rparr>"
proof -
  let ?marked = "''CODE:NOT_SQL_REQUEST\<newline>\<newline>SELECT * FROM users;\<newline>\<newline>EXPLANATION: That is a question about the weather.''"
  let ?override = "''SQL_STATEMENT: NOT_SQL_REQUEST\<newline>EXPLANATION: Ask me about your tables.''"
  let ?st = "\<lparr>l_code = NOT_SQL_REQUEST, l_message = CODE_MESSAGES NOT_SQL_REQUEST, l_sql = [],
            l_explanation = ''Ask me about your tables.''\<rparr>"
  from not_sql_request_has_empty_sql[of ?override _ ?st] extracted_override_not_sql
  obtain r where r: "parseAIResponse ?override = Inr r" "code r = NOT_SQL_REQUEST" "sql r = Some []"
    by auto
  have "parseAIResponse ?override = Inr \<lparr>code = NOT_SQL_REQUEST, message = CODE_MESSAGES NOT_SQL_REQUEST, sql = Some [],
            explanation = Some ''Ask me about your tables.''\<rparr>"
    using r extracted_override_not_sql
    by (simp add: parseAIResponse_def returned_def lineCountCheck_def fallbackSql_def)
  with not_sql_request_has_empty_sql[of ?marked "\<lparr>code = NOT_SQL_REQUEST, message = CODE_MESSAGES NOT_SQL_REQUEST, sql = Some [],
          explanation = Some ''That is a question about the weather.''\<rparr>" ?st]
    parse_marked_not_sql detect_marked_not_sql detect_override_not_sql extracted_override_not_sql
  show ?thesis by simp
qed

text \<open>
  The claim C1 as the specification states it, "a code other than \<open>SUCCESS\<close> comes with an
  empty \<open>sql\<close>", fails for each of the codes \<open>NO_DATA\<close>, \<open>SCHEMA_MISMATCH\<close>,
  \<open>INVALID_REQUEST\<close> and \<open>UNSUPPORTED_OPERATION\<close>: only under \<open>NOT_SQL_REQUEST\<close> is the
  extraction skipped, so an SQL statement that follows one of these codes, as lines, in a
  fenced block or after \<open>SQL_STATEMENT:\<close>, is extracted and returned.
\<close>

theorem non_success_sql_counterexample:
  "parseAIResponse ''CODE:NO_DATA\<newline>\<newline>SELECT * FROM students;''
     = Inr \<lparr>code = NO_DATA, message = CODE_MESSAGES NO_DATA,
            sql = Some ''SELECT * FROM students;'', explanation = None\<rparr>
   \<and> parseAIResponse ''CODE:SCHEMA_MISMATCH\<newline>```sql\<newline>SELECT 1;\<newline>```''
     = Inr \<lparr>code = SCHEMA_MISMATCH, message = CODE_MESSAGES SCHEMA_MISMATCH,
            sql = Some ''SELECT 1;'', explanation = None\<rparr>
   \<and> parseAIResponse ''CODE:INVALID_REQUEST\<newline>SQL_STATEMENT: SELECT 2;''
     = Inr \<lparr>code = INVALID_REQUEST, message = CODE_MESSAGES INVALID_REQUEST,
            sql = Some ''SELECT 2;'', explanation = None\<rparr>
   \<and> parseAIResponse ''CODE:UNSUPPORTED_OPERATION\<newline>\<newline>DROP TABLE students;''
     = Inr \<lparr>code = UNSUPPORTED_OPERATION, message = CODE_MESSAGES UNSUPPORTED_OPERATION,
            sql = Some ''DROP TABLE students;'', explanation = None\<rparr>
   \<and> NO_DATA \<noteq> SUCCESS \<and> ''SELECT * FROM students;'' \<noteq> []"
  by code_simp

text \<open>
  C1, as amended. For every input string, if the returned code is \<open>NOT_SQL_REQUEST\<close> or
  \<open>COMPLEX_QUERY\<close>, the returned \<open>sql\<close> is the empty string.
\<close>

theorem cleared_codes_have_empty_sql:
  "parseAIResponse response = Inr r \<Longrightarrow> code r = NOT_SQL_REQUEST \<or> code r = COMPLEX_QUERY
   \<Longrightarrow> sql r = Some []"
  by (cases "extracted response") (auto simp: parseAIResponse_def returned_def)

lemma parse_complex_marker:
  "parseAIResponse ''COMPLEX_QUERY: too long to answer''
     = Inr \<lparr>code = COMPLEX_QUERY, message = CODE_MESSAGES COMPLEX_QUERY, sql = Some [],
            explanation = None\<rparr>"
  by code_simp

theorem cleared_codes_have_empty_sql_witness:
  "parseAIResponse ''COMPLEX_QUERY: too long to answer''
     = Inr \<lparr>code = COMPLEX_QUERY, message = CODE_MESSAGES COMPLEX_QUERY, sql = Some [],
            explanation = None\<rparr>
   \<and> (code \<lparr>code = COMPLEX_QUERY, message = CODE_MESSAGES COMPLEX_QUERY, sql = Some [],
            explanation = None\<rparr> = NOT_SQL_REQUEST
      \<or> code \<lparr>code = COMPLEX_QUERY, message = CODE_MESSAGES COMPLEX_QUERY, sql = Some [],
            explanation = None\<rparr> = COMPLEX_QUERY)
   \<and> sql \<lparr>code = COMPLEX_QUERY, message = CODE_MESSAGES COMPLEX_QUERY, sql = Some [],
            explanation = None\<rparr> = Some []"
  using cleared_codes_have_empty_sql[OF parse_complex_marker] parse_complex_marker by simp


lemma split_join: "join [sep] (split sep s) = s"
proof (induction s)
  case Nil
  show ?case by simp
next
  case (Cons c cs)
  show ?case
  proof (cases "c = sep")
    case True
    with Cons show ?thesis by (cases "split sep cs") auto
  next
    case False
    with Cons show ?thesis
      by (cases "split sep cs"; cases "tl (split sep cs)") auto
  qed
qed

lemma split_no_separator: "line \<in> set (split sep s) \<Longrightarrow> sep \<notin> set line"
  by (induction s arbitrary: line) (auto split: if_splits list.splits)

lemma numberToString_examples:
  "map numberToString [0, 7, 10, 50, 51, 52, 99, 100, 101, 1234]
     = [''0'', ''7'', ''10'', ''50'', ''51'', ''52'', ''99'', ''100'', ''101'', ''1234'']"
  by code_simp





lemma fiftyBody_lines:
  "length (split CHR ''\<newline>'' fiftyBody) = 99"
  "length (filter (\<lambda>line. \<not> list_all isSpace line) (split CHR ''\<newline>'' fiftyBody)) = 50"
  by code_simp+

lemma fifty_lines_pass:
  "parseAIResponse fiftyResponse =
     Inr \<lparr>code = SUCCESS, message = CODE_MESSAGES SUCCESS, sql = Some fiftyBody,
          explanation = None\<rparr>"
  by code_simp


text \<open>
  The fallback on two responses that carry no SQL: the schema-mismatch example, and the same
  answer in the format the prompt asks for, where the pattern of the fallback does not even
  match the code line.
\<close>

lemma parse_schema_mismatch_example:
  "parseAIResponse
     ''SCHEMA_MISMATCH: the table 'invoices' does not exist\<newline>\<newline>EXPLANATION: No invoices table in this schema.''
   = Inr \<lparr>code = SCHEMA_MISMATCH,
          message = ''The requested query doesn't match your database schema. Please check your tables and columns.'',
          sql = Some ''the table 'invoices' does not exist\<newline>\<newline>EXPLANATION: No invoices table in this schema.'',
          explanation = Some ''No invoices table in this schema.''\<rparr>"
  by code_simp

lemma canonical_schema_mismatch:
  "parseAIResponse ''CODE:SCHEMA_MISMATCH\<newline>\<newline>EXPLANATION: No invoices table in this schema.''
   = Inr \<lparr>code = SCHEMA_MISMATCH, message = CODE_MESSAGES SCHEMA_MISMATCH,
          sql = Some ''CODE:SCHEMA_MISMATCH\<newline>\<newline>EXPLANATION: No invoices table in this schema.'',
          explanation = Some ''No invoices table in this schema.''\<rparr>"
  by code_simp

text \<open>
  C8. What the code returns on the schema-mismatch example: code \<open>SCHEMA_MISMATCH\<close>, the
  fixed schema-mismatch message, the explanation \<open>No invoices table in this schema.\<close>, and
  as \<open>sql\<close> not the empty string of the claim but the response without its leading
  \<open>SCHEMA_MISMATCH:\<close>, trimmed: the fallback takes the description of the code line and the
  explanation for SQL.
\<close>

theorem schema_mismatch_example:
  "parseAIResponse
     ''SCHEMA_MISMATCH: the table 'invoices' does not exist\<newline>\<newline>EXPLANATION: No invoices table in this schema.''
   = Inr \<lparr>code = SCHEMA_MISMATCH,
          message = CODE_MESSAGES SCHEMA_MISMATCH,
          sql = Some ''the table 'invoices' does not exist\<newline>\<newline>EXPLANATION: No invoices table in this schema.'',
          explanation = Some ''No invoices table in this schema.''\<rparr>"
  using parse_schema_mismatch_example by simp

section \<open>Properties of the validator\<close>

text \<open>
  C10. \<open>validateSql("")\<close> and \<open>validateSql("   ")\<close> both return \<open>ok: false\<close> with the
  error \<open>Empty SQL\<close>, whatever the parser and the table list: the first at the initial
  check, the second because it is not empty but splits on \<open>;\<close> into no non-empty fragment.
\<close>

theorem validateSql_empty:
  "validateSql astify [] allowedTables = OkFalse ''Empty SQL''
   \<and> ''   '' \<noteq> [] \<and> filter (\<lambda>s. s \<noteq> []) (map trim (split CHR '';'' ''   '')) = []
   \<and> validateSql astify ''   '' allowedTables = OkFalse ''Empty SQL''"
  by (simp add: validateSql_def trim_def)

lemma validateSql_parsed:
  assumes "sqlText \<noteq> []"
    and "filter (\<lambda>s. s \<noteq> []) (map trim (split CHR '';'' sqlText)) \<noteq> []"
    and "astify sqlText = Inr a"
  shows "validateSql astify sqlText allowedTables =
    (case checkNodes sqlText allowedTables (astNodes a) of
       Some e \<Rightarrow> OkFalse e | None \<Rightarrow> OkTrue a)"
  using assms by (simp add: validateSql_def parseSqlToAst_def)

lemma validateSql_OkTrue:
  assumes "validateSql astify sqlText allowedTables = OkTrue a"
  shows "astify sqlText = Inr a" and "checkNodes sqlText allowedTables (astNodes a) = None"
    and "sqlText \<noteq> []"
    and "filter (\<lambda>s. s \<noteq> []) (map trim (split CHR '';'' sqlText)) \<noteq> []"
  using assms
  by (auto simp: validateSql_def parseSqlToAst_def split: if_splits sum.splits option.splits)

lemma checkNodes_None:
  "checkNodes sqlText allowedTables nodes = None \<longleftrightarrow>
     (\<forall>node\<in>set nodes. checkNode sqlText allowedTables node = None)"
  by (induction nodes) (auto split: option.splits)

lemma checkNode_None:
  "checkNode sqlText allowedTables node = None \<longleftrightarrow>
     statementKind node \<in> set ALLOWED_TYPES
     \<and> find (\<lambda>(pattern, name). test pattern sqlText) BLOCKED_PATTERNS = None
     \<and> (case allowedTables of None \<Rightarrow> True
         | Some tables \<Rightarrow>
             tables = [] \<or> find (\<lambda>t. t \<notin> set tables) (extractTableNames node) = None)"
  by (auto simp: checkNode_def split: option.splits)

text \<open>
  C2, as amended. Whenever \<open>validateSql\<close> returns \<open>ok: true\<close>, the kind of every parsed
  statement is in the allow-list, and, when the parse gave at least one statement, no
  blocked pattern matches the raw text. (The patterns are tested inside the loop over the
  statements.)
\<close>

theorem accepted_statements_are_allowed:
  assumes "validateSql astify sqlText allowedTables = OkTrue a"
  shows "(\<forall>node\<in>set (astNodes a). statementKind node \<in> set ALLOWED_TYPES)
    \<and> (astNodes a \<noteq> [] \<longrightarrow> (\<forall>(pattern, name)\<in>set BLOCKED_PATTERNS. \<not> test pattern sqlText))"
proof -
  from validateSql_OkTrue(2)[OF assms]
  have all: "\<forall>node\<in>set (astNodes a). checkNode sqlText allowedTables node = None"
    by (simp add: checkNodes_None)
  then have kinds: "\<forall>node\<in>set (astNodes a). statementKind node \<in> set ALLOWED_TYPES"
    by (simp add: checkNode_None)
  have "\<forall>(pattern, name)\<in>set BLOCKED_PATTERNS. \<not> test pattern sqlText" if "astNodes a \<noteq> []"
  proof -
    from that obtain node where "node \<in> set (astNodes a)" by (cases "astNodes a") auto
    with all have "find (\<lambda>(pattern, name). test pattern sqlText) BLOCKED_PATTERNS = None"
      by (simp add: checkNode_None)
    then show ?thesis by (auto simp: find_None_iff)
  qed
  with kinds show ?thesis by blast
qed

lemma fragments_plain:
  "filter (\<lambda>s. s \<noteq> []) (map trim (split CHR '';'' ''SELECT * FROM students'')) \<noteq> []"
  by code_simp

lemma blocked_plain:
  "find (\<lambda>(pattern, name). test pattern ''SELECT * FROM students'') BLOCKED_PATTERNS = None"
  by code_simp

lemma kind_selectStudents: "statementKind selectStudents = ''select''"
  by code_simp

lemma tables_selectStudents: "extractTableNames selectStudents = [''students'']"
  by code_simp

lemma validate_plain:
  assumes "astify ''SELECT * FROM students'' = Inr a" and "astNodes a = [selectStudents]"
  shows "validateSql astify ''SELECT * FROM students'' None = OkTrue a"
    and "validateSql astify ''SELECT * FROM students'' (Some []) = OkTrue a"
    and "validateSql astify ''SELECT * FROM students'' (Some [''students'']) = OkTrue a"
  using assms fragments_plain
  by (simp_all add: validateSql_parsed checkNode_def blocked_plain kind_selectStudents
      tables_selectStudents ALLOWED_TYPES_def)

lemma astifyTable_plain:
  "astifyTable [(''SELECT * FROM students'', Single selectStudents)] ''SELECT * FROM students''
     = Inr (Single selectStudents)"
  by (simp add: astifyTable_def)

theorem accepted_statements_are_allowed_witness:
  "validateSql (astifyTable [(''SELECT * FROM students'', Single selectStudents)])
     ''SELECT * FROM students'' None = OkTrue (Single selectStudents)
   \<and> astNodes (Single selectStudents) = [selectStudents]
   \<and> statementKind selectStudents \<in> set ALLOWED_TYPES
   \<and> find (\<lambda>(pattern, name). test pattern ''SELECT * FROM students'') BLOCKED_PATTERNS = None"
proof -
  have ok: "validateSql (astifyTable [(''SELECT * FROM students'', Single selectStudents)])
     ''SELECT * FROM students'' None = OkTrue (Single selectStudents)"
    using validate_plain(1)[of "astifyTable [(''SELECT * FROM students'', Single selectStudents)]"
        "Single selectStudents"] astifyTable_plain
    by simp
  from accepted_statements_are_allowed[OF ok]
  have "statementKind selectStudents \<in> set ALLOWED_TYPES"
    and "\<forall>(pattern, name)\<in>set BLOCKED_PATTERNS. \<not> test pattern ''SELECT * FROM students''"
    by simp_all
  then have "statementKind selectStudents \<in> set ALLOWED_TYPES"
    and "find (\<lambda>(pattern, name). test pattern ''SELECT * FROM students'') BLOCKED_PATTERNS = None"
    by (auto simp: find_None_iff)
  with ok show ?thesis by simp
qed

text \<open>
  The claim C2 as the specification states it has no condition on the parse; it fails when
  the parser returns an array without statements for a text that a blocked pattern matches.
\<close>

theorem blocked_text_accepted_counterexample:
  "validateSql (astifyTable [(''/* grant all */;'', Multiple [])]) ''/* grant all */;'' None
     = OkTrue (Multiple [])
   \<and> test (fst (BLOCKED_PATTERNS ! 4)) ''/* grant all */;''
   \<and> snd (BLOCKED_PATTERNS ! 4) = ''GRANT''"
  by code_simp

lemma checkNode_empty_list: "checkNode sqlText (Some []) node = checkNode sqlText None node"
  by (simp add: checkNode_def split: option.splits)

lemma checkNodes_empty_list: "checkNodes sqlText (Some []) nodes = checkNodes sqlText None nodes"
  by (induction nodes) (simp_all add: checkNode_empty_list split: option.splits)

lemma find_append2:
  "find P (xs @ ys) = (case find P xs of None \<Rightarrow> find P ys | Some x \<Rightarrow> Some x)"
  by (induction xs) auto

lemma checkNodes_tables:
  assumes "tables \<noteq> []"
    and "\<forall>node\<in>set nodes. checkNode sqlText None node = None"
  shows "checkNodes sqlText (Some tables) nodes =
    map_option (\<lambda>t. tableError t tables)
      (find (\<lambda>t. t \<notin> set tables) (concat (map extractTableNames nodes)))"
  using assms(2)
proof (induction nodes)
  case Nil
  show ?case by simp
next
  case (Cons node nodes)
  from Cons.prems have node: "statementKind node \<in> set ALLOWED_TYPES"
    "find (\<lambda>(pattern, name). test pattern sqlText) BLOCKED_PATTERNS = None"
    by (simp_all add: checkNode_None)
  from Cons.prems have rest: "\<forall>node\<in>set nodes. checkNode sqlText None node = None" by simp
  from node assms(1) have "checkNode sqlText (Some tables) node =
      map_option (\<lambda>t. tableError t tables) (find (\<lambda>t. t \<notin> set tables) (extractTableNames node))"
    by (simp add: checkNode_def split: option.splits)
  with Cons.IH[OF rest] show ?case
    by (simp add: find_append2 split: option.splits)
qed

text \<open>
  C3, as amended. An empty table list switches the table check off: the validator then
  answers as it does without a list. With a non-empty list, an accepted text has every
  table name that \<open>extractTableNames\<close> finds in any of its statements in the list; and a text
  that passes the other checks (it is accepted without a list) but has such a name outside
  the list is rejected with the error that names the first of them.
\<close>

theorem table_allow_list:
  "validateSql astify sqlText (Some []) = validateSql astify sqlText None
   \<and> (tables \<noteq> [] \<longrightarrow> validateSql astify sqlText (Some tables) = OkTrue a \<longrightarrow>
        (\<forall>node\<in>set (astNodes a). \<forall>t\<in>set (extractTableNames node). t \<in> set tables))
   \<and> (tables \<noteq> [] \<longrightarrow> validateSql astify sqlText None = OkTrue a \<longrightarrow>
        find (\<lambda>t. t \<notin> set tables) (concat (map extractTableNames (astNodes a))) = Some t \<longrightarrow>
        validateSql astify sqlText (Some tables) = OkFalse (tableError t tables))"
proof (intro conjI impI)
  show "validateSql astify sqlText (Some []) = validateSql astify sqlText None"
    by (simp add: validateSql_def checkNodes_empty_list split: sum.splits)
next
  assume ne: "tables \<noteq> []" and ok: "validateSql astify sqlText (Some tables) = OkTrue a"
  from validateSql_OkTrue(2)[OF ok]
  have "\<forall>node\<in>set (astNodes a). checkNode sqlText (Some tables) node = None"
    by (simp add: checkNodes_None)
  with ne show "\<forall>node\<in>set (astNodes a). \<forall>t\<in>set (extractTableNames node). t \<in> set tables"
    by (auto simp: checkNode_None find_None_iff)
next
  assume ne: "tables \<noteq> []" and ok: "validateSql astify sqlText None = OkTrue a"
    and t: "find (\<lambda>t. t \<notin> set tables) (concat (map extractTableNames (astNodes a))) = Some t"
  from validateSql_OkTrue(2)[OF ok]
  have "\<forall>node\<in>set (astNodes a). checkNode sqlText None node = None"
    by (simp add: checkNodes_None)
  from checkNodes_tables[OF ne this] t
  have "checkNodes sqlText (Some tables) (astNodes a) = Some (tableError t tables)" by simp
  with validateSql_OkTrue(1,3,4)[OF ok]
  show "validateSql astify sqlText (Some tables) = OkFalse (tableError t tables)"
    by (simp add: validateSql_parsed)
qed

lemma fragments_join:
  "filter (\<lambda>s. s \<noteq> [])
     (map trim (split CHR '';''
        ''SELECT * FROM students s JOIN unauthorized o ON s.id=o.student_id'')) \<noteq> []"
  by code_simp

lemma blocked_join:
  "find (\<lambda>(pattern, name).
       test pattern ''SELECT * FROM students s JOIN unauthorized o ON s.id=o.student_id'')
     BLOCKED_PATTERNS = None"
  by code_simp

lemma kind_selectJoin: "statementKind selectJoin = ''select''"
  by code_simp

lemma tables_selectJoin: "extractTableNames selectJoin = [''students'', ''unauthorized'']"
  by code_simp

lemma tableError_unauthorized:
  "tableError ''unauthorized'' [''students''] =
     ''Table 'unauthorized' is not allowed. Allowed tables: students''"
  by code_simp

lemma validate_join:
  assumes "astify ''SELECT * FROM students s JOIN unauthorized o ON s.id=o.student_id'' = Inr a"
    and "astNodes a = [selectJoin]"
  shows "validateSql astify ''SELECT * FROM students s JOIN unauthorized o ON s.id=o.student_id''
           None = OkTrue a"
    and "validateSql astify ''SELECT * FROM students s JOIN unauthorized o ON s.id=o.student_id''
           (Some [''students'']) = OkFalse (tableError ''unauthorized'' [''students''])"
  using assms fragments_join
  by (simp_all add: validateSql_parsed checkNode_def blocked_join kind_selectJoin
      tables_selectJoin ALLOWED_TYPES_def)

text \<open>
  C7. When the parser reads the join of \<open>students\<close> and \<open>unauthorized\<close> as one \<open>select\<close> whose
  \<open>from\<close> holds the two table references, validation against \<open>["students"]\<close> returns
  \<open>ok: false\<close> with an error that names \<open>unauthorized\<close>; when it reads
  \<open>SELECT * FROM students\<close> as one \<open>select\<close> from \<open>students\<close>, validation against the same
  list returns \<open>ok: true\<close>.
\<close>

theorem table_allow_list_examples:
  "(astify ''SELECT * FROM students s JOIN unauthorized o ON s.id=o.student_id'' = Inr a \<longrightarrow>
    astNodes a = [selectJoin] \<longrightarrow>
    validateSql astify ''SELECT * FROM students s JOIN unauthorized o ON s.id=o.student_id''
      (Some [''students''])
      = OkFalse ''Table 'unauthorized' is not allowed. Allowed tables: students'')
   \<and> (astify ''SELECT * FROM students'' = Inr b \<longrightarrow> astNodes b = [selectStudents] \<longrightarrow>
      validateSql astify ''SELECT * FROM students'' (Some [''students'']) = OkTrue b)"
  using validate_join(2)[of astify a] validate_plain(3)[of astify b] tableError_unauthorized
  by simp

lemma exampleParser_answers:
  "exampleParser ''SELECT * FROM students'' = Inr (Single selectStudents)"
  "exampleParser ''SELECT * FROM students s JOIN unauthorized o ON s.id=o.student_id''
     = Inr (Single selectJoin)"
  by (simp_all add: exampleParser_def astifyTable_def)

theorem table_allow_list_examples_witness:
  "exampleParser ''SELECT * FROM students s JOIN unauthorized o ON s.id=o.student_id''
     = Inr (Single selectJoin)
   \<and> astNodes (Single selectJoin) = [selectJoin]
   \<and> validateSql exampleParser
       ''SELECT * FROM students s JOIN unauthorized o ON s.id=o.student_id'' (Some [''students''])
     = OkFalse ''Table 'unauthorized' is not allowed. Allowed tables: students''
   \<and> exampleParser ''SELECT * FROM students'' = Inr (Single selectStudents)
   \<and> astNodes (Single selectStudents) = [selectStudents]
   \<and> validateSql exampleParser ''SELECT * FROM students'' (Some [''students''])
     = OkTrue (Single selectStudents)"
  using table_allow_list_examples[of exampleParser "Single selectJoin" "Single selectStudents"]
    exampleParser_answers
  by simp

text \<open>
  The claim C3 as the specification states it includes the empty table list; with it the
  validator accepts a statement that reads from \<open>students\<close>.
\<close>

theorem empty_table_list_counterexample:
  "validateSql exampleParser ''SELECT * FROM students'' (Some []) = OkTrue (Single selectStudents)
   \<and> extractTableNames selectStudents = [''students'']
   \<and> ''students'' \<notin> set []"
  using validate_plain(2)[of exampleParser "Single selectStudents"] exampleParser_answers(1)
    tables_selectStudents
  by simp

theorem table_allow_list_witness:
  "validateSql exampleParser ''SELECT * FROM students'' (Some []) =
     validateSql exampleParser ''SELECT * FROM students'' None
   \<and> [''students''] \<noteq> []
   \<and> validateSql exampleParser ''SELECT * FROM students'' (Some [''students''])
       = OkTrue (Single selectStudents)
   \<and> astNodes (Single selectStudents) = [selectStudents]
   \<and> set (extractTableNames selectStudents) = {''students''}
   \<and> validateSql exampleParser
       ''SELECT * FROM students s JOIN unauthorized o ON s.id=o.student_id'' None
       = OkTrue (Single selectJoin)
   \<and> find (\<lambda>t. t \<notin> set [''students''])
        (concat (map extractTableNames (astNodes (Single selectJoin)))) = Some ''unauthorized''
   \<and> validateSql exampleParser
       ''SELECT * FROM students s JOIN unauthorized o ON s.id=o.student_id'' (Some [''students''])
       = OkFalse (tableError ''unauthorized'' [''students''])"
proof -
  let ?join = "''SELECT * FROM students s JOIN unauthorized o ON s.id=o.student_id''"
  have plain: "validateSql exampleParser ''SELECT * FROM students'' (Some [''students''])
       = OkTrue (Single selectStudents)"
    using validate_plain(3)[of exampleParser "Single selectStudents"] exampleParser_answers(1)
    by simp
  have join: "validateSql exampleParser ?join None = OkTrue (Single selectJoin)"
    using validate_join(1)[of exampleParser "Single selectJoin"] exampleParser_answers(2)
    by simp
  have first: "find (\<lambda>t. t \<notin> set [''students''])
        (concat (map extractTableNames (astNodes (Single selectJoin)))) = Some ''unauthorized''"
    by (simp add: tables_selectJoin)
  from table_allow_list[of exampleParser "''SELECT * FROM students''" "[''students'']"
      "Single selectStudents"]
    table_allow_list[of exampleParser ?join "[''students'']" "Single selectJoin" "''unauthorized''"]
    plain join first
  show ?thesis by (simp add: tables_selectStudents)
qed

lemma fragments_batch:
  "filter (\<lambda>s. s \<noteq> []) (map trim (split CHR '';'' ''SELECT * FROM a; DROP ROLE x;'')) \<noteq> []"
  by code_simp

lemma blocked_batch:
  "find (\<lambda>(pattern, name). test pattern ''SELECT * FROM a; DROP ROLE x;'') BLOCKED_PATTERNS
     = Some (BLOCKED_PATTERNS ! 9)"
  "snd (BLOCKED_PATTERNS ! 9) = ''DROP ROLE''"
  by code_simp+

lemma blockedError_drop_role:
  "blockedError ''DROP ROLE'' =
     ''Operation 'DROP ROLE' is not allowed in PGlite (browser environment).''"
  by code_simp

lemma exampleParser_throws:
  "exampleParser ''SELECT * FROM a; DROP ROLE x;'' = Inl ''Syntax error''"
  by code_simp

lemma exampleParser_note:
  "exampleParser ''SELECT 'drop role' AS note FROM a'' = Inr (Single selectA)"
  by code_simp

lemma fragments_note:
  "filter (\<lambda>s. s \<noteq> []) (map trim (split CHR '';'' ''SELECT 'drop role' AS note FROM a'')) \<noteq> []"
  by code_simp

lemma blocked_note:
  "find (\<lambda>(pattern, name). test pattern ''SELECT 'drop role' AS note FROM a'') BLOCKED_PATTERNS
     = Some (BLOCKED_PATTERNS ! 9)"
  by code_simp

lemma kind_selectA: "statementKind selectA = ''select''"
  by code_simp

text \<open>
  The claim C6 names the blocked pattern \<open>DROP ROLE\<close> as the reason of the rejection. The
  parser is called before any pattern is tested; when it throws on the text, the reason is
  the parse error.
\<close>

theorem drop_role_parse_error_counterexample:
  "validateSql exampleParser ''SELECT * FROM a; DROP ROLE x;'' None
     = OkFalse ''SQL parse error: Syntax error''
   \<and> OkFalse ''SQL parse error: Syntax error''
     \<noteq> OkFalse ''Operation 'DROP ROLE' is not allowed in PGlite (browser environment).''"
  by code_simp

text \<open>
  C6, as amended. On \<open>SELECT * FROM a; DROP ROLE x;\<close> the pattern \<open>DROP ROLE\<close> is the first
  blocked pattern that matches the raw text; when the parser throws on the text,
  \<open>validateSql\<close> returns \<open>ok: false\<close> with the parse error and tests no pattern. For a text
  that the parser accepts: when the parse gives at least one statement, the first of an
  allow-listed kind, and a blocked pattern matches the raw text, \<open>validateSql\<close> returns
  \<open>ok: false\<close> with the error of the first such pattern, although every kind may be
  allow-listed. And the whole batch is rejected as soon as one statement of it fails its
  check.
\<close>

theorem drop_role_batch_rejected:
  "map_option snd
     (find (\<lambda>(pattern, name). test pattern ''SELECT * FROM a; DROP ROLE x;'') BLOCKED_PATTERNS)
     = Some ''DROP ROLE''
   \<and> (astify ''SELECT * FROM a; DROP ROLE x;'' = Inl m \<longrightarrow>
      validateSql astify ''SELECT * FROM a; DROP ROLE x;'' allowedTables
        = OkFalse (''SQL parse error: '' @ m))
   \<and> (sqlText \<noteq> [] \<longrightarrow> filter (\<lambda>s. s \<noteq> []) (map trim (split CHR '';'' sqlText)) \<noteq> [] \<longrightarrow>
      astify sqlText = Inr a \<longrightarrow> astNodes a = node # nodes \<longrightarrow>
      statementKind node \<in> set ALLOWED_TYPES \<longrightarrow>
      find (\<lambda>(pattern, name). test pattern sqlText) BLOCKED_PATTERNS = Some (pattern, name) \<longrightarrow>
      validateSql astify sqlText allowedTables
        = OkFalse (''Operation '' @ [CHR 0x27] @ name @ [CHR 0x27]
                   @ '' is not allowed in PGlite (browser environment).''))
   \<and> (astify sqlText = Inr b \<longrightarrow> n \<in> set (astNodes b) \<longrightarrow>
      checkNode sqlText allowedTables n \<noteq> None \<longrightarrow>
      (\<exists>e. validateSql astify sqlText allowedTables = OkFalse e))"
proof (intro conjI impI)
  show "map_option snd
     (find (\<lambda>(pattern, name). test pattern ''SELECT * FROM a; DROP ROLE x;'') BLOCKED_PATTERNS)
     = Some ''DROP ROLE''"
    by (simp add: blocked_batch)
next
  assume "astify ''SELECT * FROM a; DROP ROLE x;'' = Inl m"
  then show "validateSql astify ''SELECT * FROM a; DROP ROLE x;'' allowedTables
        = OkFalse (''SQL parse error: '' @ m)"
    using fragments_batch by (simp add: validateSql_def parseSqlToAst_def)
next
  assume "sqlText \<noteq> []"
    and "filter (\<lambda>s. s \<noteq> []) (map trim (split CHR '';'' sqlText)) \<noteq> []"
    and "astify sqlText = Inr a" and "astNodes a = node # nodes"
    and "statementKind node \<in> set ALLOWED_TYPES"
    and "find (\<lambda>(pattern, name). test pattern sqlText) BLOCKED_PATTERNS = Some (pattern, name)"
  then show "validateSql astify sqlText allowedTables
        = OkFalse (''Operation '' @ [CHR 0x27] @ name @ [CHR 0x27]
                   @ '' is not allowed in PGlite (browser environment).'')"
    by (simp add: validateSql_parsed checkNode_def blockedError_def)
next
  assume b: "astify sqlText = Inr b" and n: "n \<in> set (astNodes b)"
    and fails: "checkNode sqlText allowedTables n \<noteq> None"
  from n fails have "checkNodes sqlText allowedTables (astNodes b) \<noteq> None"
    by (auto simp: checkNodes_None)
  then obtain e where "checkNodes sqlText allowedTables (astNodes b) = Some e" by auto
  with b show "\<exists>e. validateSql astify sqlText allowedTables = OkFalse e"
    by (simp add: validateSql_def parseSqlToAst_def)
qed

theorem drop_role_batch_rejected_witness:
  "exampleParser ''SELECT * FROM a; DROP ROLE x;'' = Inl ''Syntax error''
   \<and> validateSql exampleParser ''SELECT * FROM a; DROP ROLE x;'' None
       = OkFalse ''SQL parse error: Syntax error''
   \<and> exampleParser ''SELECT 'drop role' AS note FROM a'' = Inr (Single selectA)
   \<and> astNodes (Single selectA) = [selectA]
   \<and> statementKind selectA \<in> set ALLOWED_TYPES
   \<and> map_option snd
       (find (\<lambda>(pattern, name). test pattern ''SELECT 'drop role' AS note FROM a'')
          BLOCKED_PATTERNS) = Some ''DROP ROLE''
   \<and> checkNode ''SELECT 'drop role' AS note FROM a'' None selectA \<noteq> None
   \<and> validateSql exampleParser ''SELECT 'drop role' AS note FROM a'' None
       = OkFalse ''Operation 'DROP ROLE' is not allowed in PGlite (browser environment).''"
proof -
  let ?batch = "''SELECT * FROM a; DROP ROLE x;''"
  let ?note = "''SELECT 'drop role' AS note FROM a''"
  obtain pattern where p: "BLOCKED_PATTERNS ! 9 = (pattern, ''DROP ROLE'')"
    using blocked_batch(2) by (cases "BLOCKED_PATTERNS ! 9") auto
  have kind: "statementKind selectA \<in> set ALLOWED_TYPES"
    by (simp add: kind_selectA ALLOWED_TYPES_def)
  have found: "find (\<lambda>(pattern, name). test pattern ?note) BLOCKED_PATTERNS
      = Some (pattern, ''DROP ROLE'')"
    using blocked_note p by simp
  from kind found have fails: "checkNode ?note None selectA \<noteq> None"
    by (simp add: checkNode_def)
  from drop_role_batch_rejected[of exampleParser "''Syntax error''" None ?note "Single selectA"
      selectA "[]" pattern "''DROP ROLE''" "Single selectA" selectA]
    exampleParser_throws exampleParser_note fragments_note kind found fails
  show ?thesis by simp
qed

end
